theory Spec2Isabelle
  imports Complex_Main
begin

section \<open>JavaScript values read by the structural-unit code\<close>

text \<open>
  Coordinates are JavaScript numbers. For the comparisons made by the unit code only
  strict (in)equality matters, so a number is either \<open>NaN\<close> or a value (the two zeros,
  which \<open>===\<close> does not tell apart, are one value); \<open>===\<close> is false as soon as one
  side is \<open>NaN\<close>. Arithmetic on the values is the exact one (rounding is not modelled).
\<close>

datatype jsnum = Num real | NaN

definition strict_eq :: "jsnum \<Rightarrow> jsnum \<Rightarrow> bool" where
  "strict_eq a b = (a \<noteq> NaN \<and> b \<noteq> NaN \<and> a = b)"

text \<open>An array read \<open>xs[i]\<close>: out of range it yields \<open>undefined\<close> (\<open>None\<close>).\<close>

definition arr_get :: "'a list \<Rightarrow> nat \<Rightarrow> 'a option" where
  "arr_get xs i = (if i < length xs then Some (xs ! i) else None)"

text \<open>\<open>a !== b\<close> on values that are a number or \<open>undefined\<close>.\<close>

fun strict_neq :: "jsnum option \<Rightarrow> jsnum option \<Rightarrow> bool" where
  "strict_neq None None = False"
| "strict_neq (Some a) (Some b) = (\<not> strict_eq a b)"
| "strict_neq None (Some b) = True"
| "strict_neq (Some a) None = True"

fun jadd :: "jsnum \<Rightarrow> jsnum \<Rightarrow> jsnum" where
  "jadd (Num a) (Num b) = Num (a + b)"
| "jadd _ _ = NaN"

fun jmul :: "jsnum \<Rightarrow> jsnum \<Rightarrow> jsnum" where
  "jmul (Num a) (Num b) = Num (a * b)"
| "jmul _ _ = NaN"

text \<open>A read used as an operand: \<open>undefined\<close> becomes \<open>NaN\<close> in arithmetic.\<close>

definition operand :: "jsnum option \<Rightarrow> jsnum" where
  "operand v = (case v of None \<Rightarrow> NaN | Some n \<Rightarrow> n)"


section \<open>The model: coordinate stores and hierarchy\<close>

text \<open>
  Objects that the unit code never mutates (coordinate stores, models, units) are
  records that carry their address; \<open>===\<close> and \<open>!==\<close> on two such objects compare
  the addresses. Objects that are mutated (the property bag of a unit, the bond cache of
  a model) live in the heap below.
\<close>

record Coordinates =
  store_addr :: nat
  coord_x :: "jsnum list"
  coord_y :: "jsnum list"
  coord_z :: "jsnum list"

record AtomicConformation = Coordinates +
  conf_id :: string

record CoarseSphereConformation = Coordinates +
  radius :: "jsnum list"

record CoarseConformation =
  coarse_id :: string
  spheres :: CoarseSphereConformation
  gaussians :: Coordinates

text \<open>
  \<open>CoarseElements\<close> and the value of \<open>IndexPairBonds.Provider.get(model)\<close> are only
  passed around or compared by reference: they are addresses. The explicit bond index a
  model carries (what \<open>IndexPairBonds.Provider.get\<close> returns for it, \<open>undefined\<close> when
  it carries none) is the field \<open>indexPairBonds\<close> of the model.
\<close>

type_synonym CoarseElements = nat
type_synonym IndexPairBonds = nat

record Model =
  model_addr :: nat
  atomicConformation :: AtomicConformation
  coarseConformation :: CoarseConformation
  residueAtomSegments_index :: "nat list"
  chainAtomSegments_index :: "nat list"
  coarseHierarchy_spheres :: CoarseElements
  coarseHierarchy_gaussians :: CoarseElements
  indexPairBonds :: "IndexPairBonds option"


section \<open>Symmetry operators and conformation mappings\<close>

text \<open>
  Modelled from the spec: \<open>SymmetryOperator\<close> and the type of a conformation mapping,
  \<open>SymmetryOperator.ArrayMapping\<close> (mol-math/geometry/symmetry-operator), are used by the
  unit code and are not part of the sources. An operator has a name and a 4x4 matrix
  (sixteen numbers, column by column); a conformation mapping is "a coordinate store plus
  the operator used to place it in world space", with a per-index radius function (the
  field \<open>r\<close>). The unit code reads its fields \<open>operator\<close>, \<open>coordinates\<close> and \<open>r\<close>.
\<close>

record SymmetryOperator =
  op_name :: string
  matrix :: "jsnum list"

record ArrayMapping =
  operator :: SymmetryOperator
  coordinates :: Coordinates
  radius_fn :: "nat \<Rightarrow> jsnum option"

text \<open>
  Modelled from the spec: \<open>SymmetryOperator.createMapping(operator, coordinates, radius)\<close>
  is not part of the sources. It pairs the operator with the coordinate store it is
  given; the radius function is optional and is zero when left out.
\<close>

definition zeroRadius :: "nat \<Rightarrow> jsnum option" where
  "zeroRadius i = Some (Num 0)"

definition createMapping ::
  "SymmetryOperator \<Rightarrow> 'a Coordinates_scheme \<Rightarrow> (nat \<Rightarrow> jsnum option) option \<Rightarrow> ArrayMapping" where
  "createMapping op coords rad =
     \<lparr> operator = op, coordinates = Coordinates.truncate coords,
       radius_fn = (case rad of Some f \<Rightarrow> f | None \<Rightarrow> zeroRadius) \<rparr>"

text \<open>
  Modelled from the spec: the transformed position of an index under a conformation
  mapping "applies the operator to the base coordinates": the matrix applied to the
  stored x, y, z of the index as an affine map.
\<close>

definition mat :: "SymmetryOperator \<Rightarrow> nat \<Rightarrow> jsnum" where
  "mat op i = operand (arr_get (matrix op) i)"

definition affine :: "SymmetryOperator \<Rightarrow> nat \<Rightarrow> jsnum \<Rightarrow> jsnum \<Rightarrow> jsnum \<Rightarrow> jsnum" where
  "affine op row vx vy vz =
     jadd (jadd (jadd (jmul (mat op row) vx) (jmul (mat op (row + 4)) vy))
                (jmul (mat op (row + 8)) vz))
          (mat op (row + 12))"

definition position :: "ArrayMapping \<Rightarrow> nat \<Rightarrow> jsnum \<times> jsnum \<times> jsnum" where
  "position m i =
     (let vx = operand (arr_get (coord_x (coordinates m)) i);
          vy = operand (arr_get (coord_y (coordinates m)) i);
          vz = operand (arr_get (coord_z (coordinates m)) i)
      in (affine (operator m) 0 vx vy vz,
          affine (operator m) 1 vx vy vz,
          affine (operator m) 2 vx vy vz))"

text \<open>The matrix of the translation by a vector.\<close>

definition translation_matrix :: "real \<Rightarrow> real \<Rightarrow> real \<Rightarrow> jsnum list" where
  "translation_matrix tx ty tz =
     map Num [1, 0, 0, 0,  0, 1, 0, 0,  0, 0, 1, 0,  tx, ty, tz, 1]"


section \<open>Units, their property bags and the heap\<close>

datatype Kind = Kind_Atomic | Kind_Spheres | Kind_Gaussians

text \<open>
  \<open>IntraUnitBonds\<close>: the bond graph (its representation is left open) and the optional
  \<open>props\<close> with the optional flag \<open>canRemap\<close> that \<open>tryRemapBonds\<close> reads.
\<close>

record BondProps =
  canRemap :: "bool option"

record 'g IntraUnitBonds =
  graph :: 'g
  bond_props :: "BondProps option"

text \<open>
  \<open>AtomicProperties\<close>; \<open>CoarseProperties\<close> is the part up to \<open>gapElements\<close>. A field
  that is \<open>undefined\<close> is \<open>None\<close>. The types of a boundary, a spatial lookup, principal
  axes, a bond graph and a ring set are parameters.
\<close>

record ('b, 'l, 'p, 'g, 'r) properties =
  boundary :: "'b option"
  lookup3d :: "'l option"
  principalAxes :: "'p option"
  polymerElements :: "nat list option"
  gapElements :: "nat list option"
  bonds :: "'g IntraUnitBonds option"
  rings :: "'r option"
  nucleotideElements :: "nat list option"
  proteinElements :: "nat list option"
  residueCount :: "nat option"

text \<open>
  The fields of \<open>Unit.Base\<close> shared by both classes. \<open>addr\<close> is the identity of the
  unit object, \<open>props\<close> the address of its (private, mutable) property bag. The class
  \<open>Atomic\<close> fixes \<open>kind\<close> and \<open>objectPrimitive\<close>; the class \<open>Coarse\<close> stores them.
\<close>

record Base =
  addr :: nat
  unit_id :: int
  invariantId :: int
  chainGroupId :: int
  traits :: nat
  elements :: "nat list"
  model :: Model
  conformation :: ArrayMapping
  props :: nat

record Atomic = Base +
  residueIndex :: "nat list"
  chainIndex :: "nat list"

record Coarse = Base +
  kind :: Kind
  objectPrimitive :: string
  coarseElements :: CoarseElements
  coarseConformation_of :: Coordinates

definition Atomic_kind :: Kind where
  "Atomic_kind = Kind_Atomic"

definition Atomic_objectPrimitive :: string where
  "Atomic_objectPrimitive = ''atomistic''"

datatype Unit = UAtomic Atomic | UCoarse Coarse

text \<open>The computations a property getter can start, logged with the unit that ran them.\<close>

datatype computation =
    Comp_boundary | Comp_lookup3d | Comp_principalAxes | Comp_bonds | Comp_rings
  | Comp_polymerElements | Comp_gapElements | Comp_nucleotideElements
  | Comp_proteinElements | Comp_residueCount

text \<open>
  The heap: the property bags by address, the next free addresses for bags and units,
  the bond cache of each model (by the model's address) and the log of computations.
\<close>

record ('b, 'l, 'p, 'g, 'r) heap =
  pstore :: "nat \<Rightarrow> ('b, 'l, 'p, 'g, 'r) properties"
  next_props :: nat
  next_unit :: nat
  bond_cache :: "nat \<Rightarrow> (nat list \<times> 'g IntraUnitBonds) list"
  calls :: "(computation \<times> Unit) list"

definition no_properties :: "('b, 'l, 'p, 'g, 'r) properties" where
  "no_properties =
     \<lparr> boundary = None, lookup3d = None, principalAxes = None, polymerElements = None,
       gapElements = None, bonds = None, rings = None, nucleotideElements = None,
       proteinElements = None, residueCount = None \<rparr>"

text \<open>
  \<open>BaseProperties(props)\<close>, \<open>AtomicProperties(props)\<close> and \<open>CoarseProperties(props)\<close>
  all return a fresh object with the fields of \<open>props\<close> (none when \<open>props\<close> is omitted).
\<close>

definition alloc_props ::
  "('b, 'l, 'p, 'g, 'r) properties \<Rightarrow> ('b, 'l, 'p, 'g, 'r) heap \<Rightarrow> nat \<times> ('b, 'l, 'p, 'g, 'r) heap" where
  "alloc_props ps h =
     (next_props h, h \<lparr> pstore := (pstore h)(next_props h := ps), next_props := Suc (next_props h) \<rparr>)"

definition AtomicProperties ::
  "('b, 'l, 'p, 'g, 'r) properties option \<Rightarrow> ('b, 'l, 'p, 'g, 'r) heap \<Rightarrow> nat \<times> ('b, 'l, 'p, 'g, 'r) heap" where
  "AtomicProperties ps h = alloc_props (case ps of None \<Rightarrow> no_properties | Some p \<Rightarrow> p) h"

definition CoarseProperties ::
  "('b, 'l, 'p, 'g, 'r) properties option \<Rightarrow> ('b, 'l, 'p, 'g, 'r) heap \<Rightarrow> nat \<times> ('b, 'l, 'p, 'g, 'r) heap" where
  "CoarseProperties ps h = alloc_props (case ps of None \<Rightarrow> no_properties | Some p \<Rightarrow> p) h"


section \<open>Helpers of other modules\<close>

text \<open>
  The geometry, bond, ring and polymer helpers that the getters call are not part of
  the sources; they are parameters. Each is taken as a function of the arguments the
  unit code passes to it. \<open>transientSegments\<close> stands for the segment iterator: the list
  of segments it yields.
\<close>

record PositionData =
  pd_x :: "jsnum list"
  pd_y :: "jsnum list"
  pd_z :: "jsnum list"
  indices :: "nat list"

record ('b, 'l, 'p, 'g, 'r) externals =
  compose :: "SymmetryOperator \<Rightarrow> SymmetryOperator \<Rightarrow> SymmetryOperator"
  getBoundary :: "PositionData \<Rightarrow> 'b"
  tryAdjustBoundary :: "PositionData \<Rightarrow> 'b \<Rightarrow> 'b option"
  GridLookup3D :: "PositionData \<Rightarrow> 'b \<Rightarrow> 'l"
  getPrincipalAxes :: "Unit \<Rightarrow> 'p"
  computeIntraUnitBonds :: "Atomic \<Rightarrow> 'g IntraUnitBonds"
  UnitRings_create :: "Atomic \<Rightarrow> 'r"
  getAtomicPolymerElements :: "Atomic \<Rightarrow> nat list"
  getCoarsePolymerElements :: "Coarse \<Rightarrow> nat list"
  getAtomicGapElements :: "Atomic \<Rightarrow> nat list"
  getCoarseGapElements :: "Coarse \<Rightarrow> nat list"
  getNucleotideElements :: "Atomic \<Rightarrow> nat list"
  getProteinElements :: "Atomic \<Rightarrow> nat list"
  transientSegments :: "nat list \<Rightarrow> nat list \<Rightarrow> (nat \<times> nat \<times> nat) list"

record hashing =
  hash2 :: "int \<Rightarrow> int \<Rightarrow> int"
  SortedArray_hashCode :: "nat list \<Rightarrow> int"
  hashFnv32a :: "int list \<Rightarrow> int"

text \<open>
  Modelled from the spec: \<open>SortedArray.areEqual\<close> is not part of the sources; element
  subsets are equal when they are the same sequence ("full ordered comparison").
\<close>

definition SortedArray_areEqual :: "nat list \<Rightarrow> nat list \<Rightarrow> bool" where
  "SortedArray_areEqual a b = (a = b)"

text \<open>
  Modelled from the spec: \<open>ElementSetIntraBondCache\<close> is not part of the sources. The
  cache of a model maps element subsets to bond graphs; \<open>get\<close> returns the graph stored
  for a subset equal by value (the hash code only pre-filters); \<open>set\<close> stores a graph
  for a subset, replacing the one stored for an equal subset (the last writer wins).
\<close>

definition cache_get :: "(nat list \<times> 'v) list \<Rightarrow> nat list \<Rightarrow> 'v option" where
  "cache_get c els = map_of c els"

fun cache_set :: "(nat list \<times> 'v) list \<Rightarrow> nat list \<Rightarrow> 'v \<Rightarrow> (nat list \<times> 'v) list" where
  "cache_set [] els v = [(els, v)]"
| "cache_set (e # c) els v = (if fst e = els then (els, v) # c else e # cache_set c els v)"


section \<open>Constructors\<close>

definition new_Atomic ::
  "int \<Rightarrow> int \<Rightarrow> int \<Rightarrow> nat \<Rightarrow> Model \<Rightarrow> nat list \<Rightarrow> ArrayMapping \<Rightarrow> nat \<Rightarrow>
   ('b, 'l, 'p, 'g, 'r) heap \<Rightarrow> Atomic \<times> ('b, 'l, 'p, 'g, 'r) heap" where
  "new_Atomic i iid cg tr m els conf p h =
     (\<lparr> addr = next_unit h,
        unit_id = i, invariantId = iid, chainGroupId = cg, traits = tr, elements = els,
        model = m, conformation = conf, props = p,
        residueIndex = residueAtomSegments_index m,
        chainIndex = chainAtomSegments_index m \<rparr>,
      h \<lparr> next_unit := Suc (next_unit h) \<rparr>)"

definition getCoarseConformation :: "Kind \<Rightarrow> Model \<Rightarrow> Coordinates" where
  "getCoarseConformation k m =
     (if k = Kind_Spheres then Coordinates.truncate (spheres (coarseConformation m))
      else gaussians (coarseConformation m))"

definition new_Coarse ::
  "int \<Rightarrow> int \<Rightarrow> int \<Rightarrow> nat \<Rightarrow> Model \<Rightarrow> Kind \<Rightarrow> nat list \<Rightarrow> ArrayMapping \<Rightarrow> nat \<Rightarrow>
   ('b, 'l, 'p, 'g, 'r) heap \<Rightarrow> Coarse \<times> ('b, 'l, 'p, 'g, 'r) heap" where
  "new_Coarse i iid cg tr m k els conf p h =
     (\<lparr> addr = next_unit h,
        unit_id = i, invariantId = iid, chainGroupId = cg, traits = tr, elements = els,
        model = m, conformation = conf, props = p,
        kind = k,
        objectPrimitive = (if k = Kind_Spheres then ''sphere'' else ''gaussian''),
        coarseElements = (if k = Kind_Spheres then coarseHierarchy_spheres m
                          else coarseHierarchy_gaussians m),
        coarseConformation_of =
          (if k = Kind_Spheres then Coordinates.truncate (spheres (coarseConformation m))
           else gaussians (coarseConformation m)) \<rparr>,
      h \<lparr> next_unit := Suc (next_unit h) \<rparr>)"

definition createCoarse ::
  "int \<Rightarrow> int \<Rightarrow> int \<Rightarrow> nat \<Rightarrow> Model \<Rightarrow> Kind \<Rightarrow> nat list \<Rightarrow> ArrayMapping \<Rightarrow> nat \<Rightarrow>
   ('b, 'l, 'p, 'g, 'r) heap \<Rightarrow> Unit \<times> ('b, 'l, 'p, 'g, 'r) heap" where
  "createCoarse i iid cg tr m k els conf p h =
     (case new_Coarse i iid cg tr m k els conf p h of (c, h') \<Rightarrow> (UCoarse c, h'))"

definition getSphereRadiusFunc :: "Model \<Rightarrow> nat \<Rightarrow> jsnum option" where
  "getSphereRadiusFunc m = (\<lambda>i. arr_get (radius (spheres (coarseConformation m))) i)"

definition getGaussianRadiusFunc :: "Model \<Rightarrow> nat \<Rightarrow> jsnum option" where
  "getGaussianRadiusFunc m = (\<lambda>i. Some (Num 0))"

definition create ::
  "int \<Rightarrow> int \<Rightarrow> int \<Rightarrow> nat \<Rightarrow> Kind \<Rightarrow> Model \<Rightarrow> SymmetryOperator \<Rightarrow> nat list \<Rightarrow>
   ('b, 'l, 'p, 'g, 'r) properties option \<Rightarrow>
   ('b, 'l, 'p, 'g, 'r) heap \<Rightarrow> Unit \<times> ('b, 'l, 'p, 'g, 'r) heap" where
  "create i iid cg tr k m op els ps h =
     (case k of
        Kind_Atomic \<Rightarrow>
          (case AtomicProperties ps h of (p, h1) \<Rightarrow>
             (case new_Atomic i iid cg tr m els
                     (createMapping op (atomicConformation m) None) p h1 of
                (a, h2) \<Rightarrow> (UAtomic a, h2)))
      | Kind_Spheres \<Rightarrow>
          (case CoarseProperties ps h of (p, h1) \<Rightarrow>
             createCoarse i iid cg tr m Kind_Spheres els
               (createMapping op (spheres (coarseConformation m))
                  (Some (getSphereRadiusFunc m))) p h1)
      | Kind_Gaussians \<Rightarrow>
          (case CoarseProperties ps h of (p, h1) \<Rightarrow>
             createCoarse i iid cg tr m Kind_Gaussians els
               (createMapping op (gaussians (coarseConformation m))
                  (Some (getGaussianRadiusFunc m))) p h1))"


section \<open>Coordinate identity and bond remapping\<close>

text \<open>
  The loop of \<open>isSameConformation\<close> over the element indices: the first index at which
  one of the three reads differs (\<open>!==\<close>) ends it with \<open>false\<close>.
\<close>

fun sameCoordinates :: "Coordinates \<Rightarrow> 'a Coordinates_scheme \<Rightarrow> nat list \<Rightarrow> bool" where
  "sameCoordinates a b [] = True"
| "sameCoordinates a b (u # us) =
     (if strict_neq (arr_get (coord_x a) u) (arr_get (coord_x b) u)
         \<or> strict_neq (arr_get (coord_y a) u) (arr_get (coord_y b) u)
         \<or> strict_neq (arr_get (coord_z a) u) (arr_get (coord_z b) u)
      then False
      else sameCoordinates a b us)"

definition isSameConformation :: "Atomic \<Rightarrow> Model \<Rightarrow> bool" where
  "isSameConformation a m =
     sameCoordinates (coordinates (conformation a)) (atomicConformation m) (elements a)"

definition tryRemapBonds ::
  "Atomic \<Rightarrow> 'g IntraUnitBonds option \<Rightarrow> Model \<Rightarrow> 'g IntraUnitBonds option" where
  "tryRemapBonds a old m =
     (case old of
        None \<Rightarrow> None
      | Some b \<Rightarrow>
          if conf_id (atomicConformation (model a)) = conf_id (atomicConformation m)
          then Some b
          else
            (case indexPairBonds (model a) of
               Some oldIndex \<Rightarrow>
                 (case indexPairBonds m of
                    None \<Rightarrow> Some b
                  | Some newIndex \<Rightarrow> if oldIndex = newIndex then Some b else None)
             | None \<Rightarrow>
                 if (case bond_props b of
                       None \<Rightarrow> False
                     | Some bp \<Rightarrow> canRemap bp = Some True)
                 then Some b
                 else if isSameConformation a m then Some b else None))"


section \<open>Deriving units: child, operator, remap\<close>

definition Atomic_getChild ::
  "Atomic \<Rightarrow> nat list \<Rightarrow> ('b, 'l, 'p, 'g, 'r) heap \<Rightarrow> Unit \<times> ('b, 'l, 'p, 'g, 'r) heap" where
  "Atomic_getChild this els h =
     (if length els = length (elements this) then (UAtomic this, h)
      else
        (case AtomicProperties None h of (p, h1) \<Rightarrow>
           (case new_Atomic (unit_id this) (invariantId this) (chainGroupId this) (traits this)
                   (model this) els (conformation this) p h1 of
              (a, h2) \<Rightarrow> (UAtomic a, h2))))"

definition Atomic_applyOperator ::
  "('b, 'l, 'p, 'g, 'r) externals \<Rightarrow> Atomic \<Rightarrow> int \<Rightarrow> SymmetryOperator \<Rightarrow> bool \<Rightarrow>
   ('b, 'l, 'p, 'g, 'r) heap \<Rightarrow> Unit \<times> ('b, 'l, 'p, 'g, 'r) heap" where
  "Atomic_applyOperator ext this i opr dontCompose h =
     (let op = (if dontCompose then opr
                else compose ext (operator (conformation this)) opr)
      in (case new_Atomic i (invariantId this) (chainGroupId this) (traits this)
                 (model this) (elements this)
                 (createMapping op (atomicConformation (model this))
                    (Some (radius_fn (conformation this))))
                 (props this) h of
            (a, h1) \<Rightarrow> (UAtomic a, h1)))"

definition atomicPositions :: "Model \<Rightarrow> nat list \<Rightarrow> PositionData" where
  "atomicPositions m els =
     \<lparr> pd_x = coord_x (atomicConformation m), pd_y = coord_y (atomicConformation m),
       pd_z = coord_z (atomicConformation m), indices = els \<rparr>"

definition coarsePositions :: "Kind \<Rightarrow> Model \<Rightarrow> nat list \<Rightarrow> PositionData" where
  "coarsePositions k m els =
     \<lparr> pd_x = coord_x (getCoarseConformation k m), pd_y = coord_y (getCoarseConformation k m),
       pd_z = coord_z (getCoarseConformation k m), indices = els \<rparr>"

definition Atomic_remapModel ::
  "('b, 'l, 'p, 'g, 'r) externals \<Rightarrow> Atomic \<Rightarrow> Model \<Rightarrow>
   ('b, 'l, 'p, 'g, 'r) heap \<Rightarrow> Atomic \<times> ('b, 'l, 'p, 'g, 'r) heap" where
  "Atomic_remapModel ext this m h =
     (let old = pstore h (props this);
          bnd = (case boundary old of
                   None \<Rightarrow> None
                 | Some b \<Rightarrow>
                     if \<not> isSameConformation this m
                     then tryAdjustBoundary ext (atomicPositions m (elements this)) b
                     else Some b);
          ps = old \<lparr> bonds := tryRemapBonds this (bonds old) m, boundary := bnd,
                     lookup3d := None, principalAxes := None \<rparr>;
          conf = (if store_addr (atomicConformation (model this)) \<noteq> store_addr (atomicConformation m)
                  then createMapping (operator (conformation this)) (atomicConformation m) None
                  else conformation this)
      in (case alloc_props ps h of (p, h1) \<Rightarrow>
            new_Atomic (unit_id this) (invariantId this) (chainGroupId this) (traits this)
              m (elements this) conf p h1))"

definition Coarse_getChild ::
  "Coarse \<Rightarrow> nat list \<Rightarrow> ('b, 'l, 'p, 'g, 'r) heap \<Rightarrow> Unit \<times> ('b, 'l, 'p, 'g, 'r) heap" where
  "Coarse_getChild this els h =
     (if length els = length (elements this) then (UCoarse this, h)
      else
        (case CoarseProperties None h of (p, h1) \<Rightarrow>
           createCoarse (unit_id this) (invariantId this) (chainGroupId this) (traits this)
             (model this) (kind this) els (conformation this) p h1))"

definition Coarse_applyOperator ::
  "('b, 'l, 'p, 'g, 'r) externals \<Rightarrow> Coarse \<Rightarrow> int \<Rightarrow> SymmetryOperator \<Rightarrow> bool \<Rightarrow>
   ('b, 'l, 'p, 'g, 'r) heap \<Rightarrow> Unit \<times> ('b, 'l, 'p, 'g, 'r) heap" where
  "Coarse_applyOperator ext this i opr dontCompose h =
     (let op = (if dontCompose then opr
                else compose ext (operator (conformation this)) opr)
      in createCoarse i (invariantId this) (chainGroupId this) (traits this)
           (model this) (kind this) (elements this)
           (createMapping op (getCoarseConformation (kind this) (model this))
              (Some (radius_fn (conformation this))))
           (props this) h)"

definition Coarse_remapModel ::
  "('b, 'l, 'p, 'g, 'r) externals \<Rightarrow> Coarse \<Rightarrow> Model \<Rightarrow>
   ('b, 'l, 'p, 'g, 'r) heap \<Rightarrow> Coarse \<times> ('b, 'l, 'p, 'g, 'r) heap" where
  "Coarse_remapModel ext this m h =
     (let coarseConf = getCoarseConformation (kind this) (model this);
          modelCoarseConf = getCoarseConformation (kind this) m;
          old = pstore h (props this);
          bnd = (case boundary old of
                   None \<Rightarrow> None
                 | Some b \<Rightarrow> tryAdjustBoundary ext (coarsePositions (kind this) m (elements this)) b);
          ps = old \<lparr> boundary := bnd, lookup3d := None, principalAxes := None \<rparr>;
          conf = (if store_addr coarseConf \<noteq> store_addr modelCoarseConf
                  then createMapping (operator (conformation this)) modelCoarseConf None
                  else conformation this)
      in (case alloc_props ps h of (p, h1) \<Rightarrow>
            new_Coarse (unit_id this) (invariantId this) (chainGroupId this) (traits this)
              m (kind this) (elements this) conf p h1))"

text \<open>The three methods on a unit of either class.\<close>

definition getChild ::
  "Unit \<Rightarrow> nat list \<Rightarrow> ('b, 'l, 'p, 'g, 'r) heap \<Rightarrow> Unit \<times> ('b, 'l, 'p, 'g, 'r) heap" where
  "getChild u els h =
     (case u of UAtomic a \<Rightarrow> Atomic_getChild a els h | UCoarse c \<Rightarrow> Coarse_getChild c els h)"

definition applyOperator ::
  "('b, 'l, 'p, 'g, 'r) externals \<Rightarrow> Unit \<Rightarrow> int \<Rightarrow> SymmetryOperator \<Rightarrow> bool \<Rightarrow>
   ('b, 'l, 'p, 'g, 'r) heap \<Rightarrow> Unit \<times> ('b, 'l, 'p, 'g, 'r) heap" where
  "applyOperator ext u i opr dontCompose h =
     (case u of
        UAtomic a \<Rightarrow> Atomic_applyOperator ext a i opr dontCompose h
      | UCoarse c \<Rightarrow> Coarse_applyOperator ext c i opr dontCompose h)"

definition remapModel ::
  "('b, 'l, 'p, 'g, 'r) externals \<Rightarrow> Unit \<Rightarrow> Model \<Rightarrow>
   ('b, 'l, 'p, 'g, 'r) heap \<Rightarrow> Unit \<times> ('b, 'l, 'p, 'g, 'r) heap" where
  "remapModel ext u m h =
     (case u of
        UAtomic a \<Rightarrow> (case Atomic_remapModel ext a m h of (a', h') \<Rightarrow> (UAtomic a', h'))
      | UCoarse c \<Rightarrow> (case Coarse_remapModel ext c m h of (c', h') \<Rightarrow> (UCoarse c', h')))"

text \<open>Field reads on a unit of either class.\<close>

definition base_of :: "Unit \<Rightarrow> Base" where
  "base_of u = (case u of UAtomic a \<Rightarrow> Base.truncate a | UCoarse c \<Rightarrow> Base.truncate c)"

definition kind_of :: "Unit \<Rightarrow> Kind" where
  "kind_of u = (case u of UAtomic a \<Rightarrow> Atomic_kind | UCoarse c \<Rightarrow> kind c)"

definition cache_of :: "('b, 'l, 'p, 'g, 'r) heap \<Rightarrow> Unit \<Rightarrow> ('b, 'l, 'p, 'g, 'r) properties" where
  "cache_of h u = pstore h (props (base_of u))"


section \<open>The lazily computed properties\<close>

definition log_call ::
  "computation \<Rightarrow> Unit \<Rightarrow> ('b, 'l, 'p, 'g, 'r) heap \<Rightarrow> ('b, 'l, 'p, 'g, 'r) heap" where
  "log_call c u h = h \<lparr> calls := calls h @ [(c, u)] \<rparr>"

definition set_props ::
  "nat \<Rightarrow> (('b, 'l, 'p, 'g, 'r) properties \<Rightarrow> ('b, 'l, 'p, 'g, 'r) properties) \<Rightarrow>
   ('b, 'l, 'p, 'g, 'r) heap \<Rightarrow> ('b, 'l, 'p, 'g, 'r) heap" where
  "set_props p f h = h \<lparr> pstore := (pstore h)(p := f (pstore h p)) \<rparr>"

definition Atomic_boundary ::
  "('b, 'l, 'p, 'g, 'r) externals \<Rightarrow> Atomic \<Rightarrow> ('b, 'l, 'p, 'g, 'r) heap \<Rightarrow> 'b \<times> ('b, 'l, 'p, 'g, 'r) heap" where
  "Atomic_boundary ext this h =
     (case boundary (pstore h (props this)) of
        Some b \<Rightarrow> (b, h)
      | None \<Rightarrow>
          (let b = getBoundary ext (atomicPositions (model this) (elements this))
           in (b, set_props (props this) (\<lambda>ps. ps \<lparr> boundary := Some b \<rparr>)
                    (log_call Comp_boundary (UAtomic this) h))))"

definition Atomic_lookup3d ::
  "('b, 'l, 'p, 'g, 'r) externals \<Rightarrow> Atomic \<Rightarrow> ('b, 'l, 'p, 'g, 'r) heap \<Rightarrow> 'l \<times> ('b, 'l, 'p, 'g, 'r) heap" where
  "Atomic_lookup3d ext this h =
     (case lookup3d (pstore h (props this)) of
        Some l \<Rightarrow> (l, h)
      | None \<Rightarrow>
          (case Atomic_boundary ext this h of (b, h1) \<Rightarrow>
             (let l = GridLookup3D ext (atomicPositions (model this) (elements this)) b
              in (l, set_props (props this) (\<lambda>ps. ps \<lparr> lookup3d := Some l \<rparr>)
                       (log_call Comp_lookup3d (UAtomic this) h1)))))"

definition Atomic_principalAxes ::
  "('b, 'l, 'p, 'g, 'r) externals \<Rightarrow> Atomic \<Rightarrow> ('b, 'l, 'p, 'g, 'r) heap \<Rightarrow> 'p \<times> ('b, 'l, 'p, 'g, 'r) heap" where
  "Atomic_principalAxes ext this h =
     (case principalAxes (pstore h (props this)) of
        Some v \<Rightarrow> (v, h)
      | None \<Rightarrow>
          (let v = getPrincipalAxes ext (UAtomic this)
           in (v, set_props (props this) (\<lambda>ps. ps \<lparr> principalAxes := Some v \<rparr>)
                    (log_call Comp_principalAxes (UAtomic this) h))))"

definition Atomic_bonds ::
  "('b, 'l, 'p, 'g, 'r) externals \<Rightarrow> Atomic \<Rightarrow> ('b, 'l, 'p, 'g, 'r) heap \<Rightarrow>
   'g IntraUnitBonds \<times> ('b, 'l, 'p, 'g, 'r) heap" where
  "Atomic_bonds ext this h =
     (case bonds (pstore h (props this)) of
        Some v \<Rightarrow> (v, h)
      | None \<Rightarrow>
          (let cache = bond_cache h (model_addr (model this))
           in (case (case cache_get cache (elements this) of
                       Some v \<Rightarrow> (v, h)
                     | None \<Rightarrow>
                         (let v = computeIntraUnitBonds ext this;
                              h1 = log_call Comp_bonds (UAtomic this) h
                          in (v, h1 \<lparr> bond_cache := (bond_cache h1)
                                       (model_addr (model this) :=
                                          cache_set cache (elements this) v) \<rparr>))) of
                 (v, h2) \<Rightarrow>
                   (v, set_props (props this) (\<lambda>ps. ps \<lparr> bonds := Some v \<rparr>) h2))))"

definition Atomic_rings ::
  "('b, 'l, 'p, 'g, 'r) externals \<Rightarrow> Atomic \<Rightarrow> ('b, 'l, 'p, 'g, 'r) heap \<Rightarrow> 'r \<times> ('b, 'l, 'p, 'g, 'r) heap" where
  "Atomic_rings ext this h =
     (case rings (pstore h (props this)) of
        Some v \<Rightarrow> (v, h)
      | None \<Rightarrow>
          (let v = UnitRings_create ext this
           in (v, set_props (props this) (\<lambda>ps. ps \<lparr> rings := Some v \<rparr>)
                    (log_call Comp_rings (UAtomic this) h))))"

definition Atomic_polymerElements ::
  "('b, 'l, 'p, 'g, 'r) externals \<Rightarrow> Atomic \<Rightarrow> ('b, 'l, 'p, 'g, 'r) heap \<Rightarrow> nat list \<times> ('b, 'l, 'p, 'g, 'r) heap" where
  "Atomic_polymerElements ext this h =
     (case polymerElements (pstore h (props this)) of
        Some v \<Rightarrow> (v, h)
      | None \<Rightarrow>
          (let v = getAtomicPolymerElements ext this
           in (v, set_props (props this) (\<lambda>ps. ps \<lparr> polymerElements := Some v \<rparr>)
                    (log_call Comp_polymerElements (UAtomic this) h))))"

definition Atomic_gapElements ::
  "('b, 'l, 'p, 'g, 'r) externals \<Rightarrow> Atomic \<Rightarrow> ('b, 'l, 'p, 'g, 'r) heap \<Rightarrow> nat list \<times> ('b, 'l, 'p, 'g, 'r) heap" where
  "Atomic_gapElements ext this h =
     (case gapElements (pstore h (props this)) of
        Some v \<Rightarrow> (v, h)
      | None \<Rightarrow>
          (let v = getAtomicGapElements ext this
           in (v, set_props (props this) (\<lambda>ps. ps \<lparr> gapElements := Some v \<rparr>)
                    (log_call Comp_gapElements (UAtomic this) h))))"

definition Atomic_nucleotideElements ::
  "('b, 'l, 'p, 'g, 'r) externals \<Rightarrow> Atomic \<Rightarrow> ('b, 'l, 'p, 'g, 'r) heap \<Rightarrow> nat list \<times> ('b, 'l, 'p, 'g, 'r) heap" where
  "Atomic_nucleotideElements ext this h =
     (case nucleotideElements (pstore h (props this)) of
        Some v \<Rightarrow> (v, h)
      | None \<Rightarrow>
          (let v = getNucleotideElements ext this
           in (v, set_props (props this) (\<lambda>ps. ps \<lparr> nucleotideElements := Some v \<rparr>)
                    (log_call Comp_nucleotideElements (UAtomic this) h))))"

definition Atomic_proteinElements ::
  "('b, 'l, 'p, 'g, 'r) externals \<Rightarrow> Atomic \<Rightarrow> ('b, 'l, 'p, 'g, 'r) heap \<Rightarrow> nat list \<times> ('b, 'l, 'p, 'g, 'r) heap" where
  "Atomic_proteinElements ext this h =
     (case proteinElements (pstore h (props this)) of
        Some v \<Rightarrow> (v, h)
      | None \<Rightarrow>
          (let v = getProteinElements ext this
           in (v, set_props (props this) (\<lambda>ps. ps \<lparr> proteinElements := Some v \<rparr>)
                    (log_call Comp_proteinElements (UAtomic this) h))))"

text \<open>The loop of \<open>residueCount\<close>: one step and one increment for each segment.\<close>

fun countSegments :: "'s list \<Rightarrow> nat \<Rightarrow> nat" where
  "countSegments [] n = n"
| "countSegments (s # ss) n = countSegments ss (n + 1)"

definition Atomic_residueCount ::
  "('b, 'l, 'p, 'g, 'r) externals \<Rightarrow> Atomic \<Rightarrow> ('b, 'l, 'p, 'g, 'r) heap \<Rightarrow> nat \<times> ('b, 'l, 'p, 'g, 'r) heap" where
  "Atomic_residueCount ext this h =
     (case residueCount (pstore h (props this)) of
        Some v \<Rightarrow> (v, h)
      | None \<Rightarrow>
          (let v = countSegments
                     (transientSegments ext (residueAtomSegments_index (model this))
                        (elements this)) 0
           in (v, set_props (props this) (\<lambda>ps. ps \<lparr> residueCount := Some v \<rparr>)
                    (log_call Comp_residueCount (UAtomic this) h))))"

definition Coarse_boundary ::
  "('b, 'l, 'p, 'g, 'r) externals \<Rightarrow> Coarse \<Rightarrow> ('b, 'l, 'p, 'g, 'r) heap \<Rightarrow> 'b \<times> ('b, 'l, 'p, 'g, 'r) heap" where
  "Coarse_boundary ext this h =
     (case boundary (pstore h (props this)) of
        Some b \<Rightarrow> (b, h)
      | None \<Rightarrow>
          (let b = getBoundary ext (coarsePositions (kind this) (model this) (elements this))
           in (b, set_props (props this) (\<lambda>ps. ps \<lparr> boundary := Some b \<rparr>)
                    (log_call Comp_boundary (UCoarse this) h))))"

definition Coarse_lookup3d ::
  "('b, 'l, 'p, 'g, 'r) externals \<Rightarrow> Coarse \<Rightarrow> ('b, 'l, 'p, 'g, 'r) heap \<Rightarrow> 'l \<times> ('b, 'l, 'p, 'g, 'r) heap" where
  "Coarse_lookup3d ext this h =
     (case lookup3d (pstore h (props this)) of
        Some l \<Rightarrow> (l, h)
      | None \<Rightarrow>
          (case Coarse_boundary ext this h of (b, h1) \<Rightarrow>
             (let l = GridLookup3D ext (coarsePositions (kind this) (model this) (elements this)) b
              in (l, set_props (props this) (\<lambda>ps. ps \<lparr> lookup3d := Some l \<rparr>)
                       (log_call Comp_lookup3d (UCoarse this) h1)))))"

definition Coarse_principalAxes ::
  "('b, 'l, 'p, 'g, 'r) externals \<Rightarrow> Coarse \<Rightarrow> ('b, 'l, 'p, 'g, 'r) heap \<Rightarrow> 'p \<times> ('b, 'l, 'p, 'g, 'r) heap" where
  "Coarse_principalAxes ext this h =
     (case principalAxes (pstore h (props this)) of
        Some v \<Rightarrow> (v, h)
      | None \<Rightarrow>
          (let v = getPrincipalAxes ext (UCoarse this)
           in (v, set_props (props this) (\<lambda>ps. ps \<lparr> principalAxes := Some v \<rparr>)
                    (log_call Comp_principalAxes (UCoarse this) h))))"

definition Coarse_polymerElements ::
  "('b, 'l, 'p, 'g, 'r) externals \<Rightarrow> Coarse \<Rightarrow> ('b, 'l, 'p, 'g, 'r) heap \<Rightarrow> nat list \<times> ('b, 'l, 'p, 'g, 'r) heap" where
  "Coarse_polymerElements ext this h =
     (case polymerElements (pstore h (props this)) of
        Some v \<Rightarrow> (v, h)
      | None \<Rightarrow>
          (let v = getCoarsePolymerElements ext this
           in (v, set_props (props this) (\<lambda>ps. ps \<lparr> polymerElements := Some v \<rparr>)
                    (log_call Comp_polymerElements (UCoarse this) h))))"

definition Coarse_gapElements ::
  "('b, 'l, 'p, 'g, 'r) externals \<Rightarrow> Coarse \<Rightarrow> ('b, 'l, 'p, 'g, 'r) heap \<Rightarrow> nat list \<times> ('b, 'l, 'p, 'g, 'r) heap" where
  "Coarse_gapElements ext this h =
     (case gapElements (pstore h (props this)) of
        Some v \<Rightarrow> (v, h)
      | None \<Rightarrow>
          (let v = getCoarseGapElements ext this
           in (v, set_props (props this) (\<lambda>ps. ps \<lparr> gapElements := Some v \<rparr>)
                    (log_call Comp_gapElements (UCoarse this) h))))"


text \<open>
  A property read on a unit of either class, by the name of the property. The value is
  tagged with its type; a coarse unit has no getter for the atomic-only properties, so
  such a read is \<open>undefined\<close> and changes nothing.
\<close>

datatype ('b, 'l, 'p, 'g, 'r) propval =
    V_boundary 'b | V_lookup3d 'l | V_principalAxes 'p | V_bonds "'g IntraUnitBonds"
  | V_rings 'r | V_elements "nat list" | V_count nat | V_undefined

definition tagged :: "('v \<Rightarrow> 'w) \<Rightarrow> 'v \<times> 'h \<Rightarrow> 'w \<times> 'h" where
  "tagged f r = (case r of (v, h) \<Rightarrow> (f v, h))"

definition read_Atomic ::
  "('b, 'l, 'p, 'g, 'r) externals \<Rightarrow> computation \<Rightarrow> Atomic \<Rightarrow> ('b, 'l, 'p, 'g, 'r) heap \<Rightarrow>
   ('b, 'l, 'p, 'g, 'r) propval \<times> ('b, 'l, 'p, 'g, 'r) heap" where
  "read_Atomic ext c a h =
     (case c of
        Comp_boundary \<Rightarrow> tagged V_boundary (Atomic_boundary ext a h)
      | Comp_lookup3d \<Rightarrow> tagged V_lookup3d (Atomic_lookup3d ext a h)
      | Comp_principalAxes \<Rightarrow> tagged V_principalAxes (Atomic_principalAxes ext a h)
      | Comp_bonds \<Rightarrow> tagged V_bonds (Atomic_bonds ext a h)
      | Comp_rings \<Rightarrow> tagged V_rings (Atomic_rings ext a h)
      | Comp_polymerElements \<Rightarrow> tagged V_elements (Atomic_polymerElements ext a h)
      | Comp_gapElements \<Rightarrow> tagged V_elements (Atomic_gapElements ext a h)
      | Comp_nucleotideElements \<Rightarrow> tagged V_elements (Atomic_nucleotideElements ext a h)
      | Comp_proteinElements \<Rightarrow> tagged V_elements (Atomic_proteinElements ext a h)
      | Comp_residueCount \<Rightarrow> tagged V_count (Atomic_residueCount ext a h))"

definition read_Coarse ::
  "('b, 'l, 'p, 'g, 'r) externals \<Rightarrow> computation \<Rightarrow> Coarse \<Rightarrow> ('b, 'l, 'p, 'g, 'r) heap \<Rightarrow>
   ('b, 'l, 'p, 'g, 'r) propval \<times> ('b, 'l, 'p, 'g, 'r) heap" where
  "read_Coarse ext c a h =
     (case c of
        Comp_boundary \<Rightarrow> tagged V_boundary (Coarse_boundary ext a h)
      | Comp_lookup3d \<Rightarrow> tagged V_lookup3d (Coarse_lookup3d ext a h)
      | Comp_principalAxes \<Rightarrow> tagged V_principalAxes (Coarse_principalAxes ext a h)
      | Comp_polymerElements \<Rightarrow> tagged V_elements (Coarse_polymerElements ext a h)
      | Comp_gapElements \<Rightarrow> tagged V_elements (Coarse_gapElements ext a h)
      | _ \<Rightarrow> (V_undefined, h))"

definition read ::
  "('b, 'l, 'p, 'g, 'r) externals \<Rightarrow> computation \<Rightarrow> Unit \<Rightarrow> ('b, 'l, 'p, 'g, 'r) heap \<Rightarrow>
   ('b, 'l, 'p, 'g, 'r) propval \<times> ('b, 'l, 'p, 'g, 'r) heap" where
  "read ext c u h =
     (case u of UAtomic a \<Rightarrow> read_Atomic ext c a h | UCoarse a \<Rightarrow> read_Coarse ext c a h)"

text \<open>What a property bag holds for a property, tagged the same way.\<close>

definition stored ::
  "computation \<Rightarrow> ('b, 'l, 'p, 'g, 'r) properties \<Rightarrow> ('b, 'l, 'p, 'g, 'r) propval option" where
  "stored c ps =
     (case c of
        Comp_boundary \<Rightarrow> map_option V_boundary (boundary ps)
      | Comp_lookup3d \<Rightarrow> map_option V_lookup3d (lookup3d ps)
      | Comp_principalAxes \<Rightarrow> map_option V_principalAxes (principalAxes ps)
      | Comp_bonds \<Rightarrow> map_option V_bonds (bonds ps)
      | Comp_rings \<Rightarrow> map_option V_rings (rings ps)
      | Comp_polymerElements \<Rightarrow> map_option V_elements (polymerElements ps)
      | Comp_gapElements \<Rightarrow> map_option V_elements (gapElements ps)
      | Comp_nucleotideElements \<Rightarrow> map_option V_elements (nucleotideElements ps)
      | Comp_proteinElements \<Rightarrow> map_option V_elements (proteinElements ps)
      | Comp_residueCount \<Rightarrow> map_option V_count (residueCount ps))"

text \<open>
  A step of a client of the units: a property read, or one of the three operations that
  derive a unit. A run executes steps in order on the heap.
\<close>

datatype step =
    Read computation Unit
  | GetChild Unit "nat list"
  | ApplyOperator Unit int SymmetryOperator bool
  | RemapModel Unit Model

datatype ('b, 'l, 'p, 'g, 'r) outcome = Value "('b, 'l, 'p, 'g, 'r) propval" | Derived Unit

fun receiver :: "step \<Rightarrow> Unit" where
  "receiver (Read c u) = u"
| "receiver (GetChild u s) = u"
| "receiver (ApplyOperator u i opr d) = u"
| "receiver (RemapModel u m) = u"

fun exec ::
  "('b, 'l, 'p, 'g, 'r) externals \<Rightarrow> step \<Rightarrow> ('b, 'l, 'p, 'g, 'r) heap \<Rightarrow>
   ('b, 'l, 'p, 'g, 'r) outcome \<times> ('b, 'l, 'p, 'g, 'r) heap" where
  "exec ext (Read c u) h = tagged Value (read ext c u h)"
| "exec ext (GetChild u s) h = tagged Derived (getChild u s h)"
| "exec ext (ApplyOperator u i opr d) h = tagged Derived (applyOperator ext u i opr d h)"
| "exec ext (RemapModel u m) h = tagged Derived (remapModel ext u m h)"

fun run ::
  "('b, 'l, 'p, 'g, 'r) externals \<Rightarrow> step list \<Rightarrow> ('b, 'l, 'p, 'g, 'r) heap \<Rightarrow>
   ('b, 'l, 'p, 'g, 'r) outcome list \<times> ('b, 'l, 'p, 'g, 'r) heap" where
  "run ext [] h = ([], h)"
| "run ext (s # ss) h =
     (case exec ext s h of (v, h1) \<Rightarrow>
        (case run ext ss h1 of (vs, h2) \<Rightarrow> (v # vs, h2)))"

text \<open>
  Every step of the run is on a unit whose property bag has been allocated by then.
\<close>

fun allocated ::
  "('b, 'l, 'p, 'g, 'r) externals \<Rightarrow> step list \<Rightarrow> ('b, 'l, 'p, 'g, 'r) heap \<Rightarrow> bool" where
  "allocated ext [] h = True"
| "allocated ext (s # ss) h =
     (props (base_of (receiver s)) < next_props h \<and> allocated ext ss (snd (exec ext s h)))"


section \<open>Symmetry groups\<close>

datatype error = TypeError

record SymmetryGroup =
  group_elements :: "nat list"
  units :: "Unit list"
  hashCode :: int
  transformHash :: int

definition hashUnit :: "hashing \<Rightarrow> Unit \<Rightarrow> int" where
  "hashUnit hf u =
     hash2 hf (invariantId (base_of u)) (SortedArray_hashCode hf (elements (base_of u)))"

fun collectIds :: "Unit list \<Rightarrow> int list \<Rightarrow> int list" where
  "collectIds [] ids = ids"
| "collectIds (u # us) ids = collectIds us (ids @ [unit_id (base_of u)])"

definition getTransformHash :: "hashing \<Rightarrow> Unit list \<Rightarrow> int" where
  "getTransformHash hf us = hashFnv32a hf (collectIds us [])"

fun indexUnits :: "Unit list \<Rightarrow> nat \<Rightarrow> (int \<rightharpoonup> nat) \<Rightarrow> (int \<rightharpoonup> nat)" where
  "indexUnits [] i m = m"
| "indexUnits (u # us) i m = indexUnits us (i + 1) (m(unit_id (base_of u) \<mapsto> i))"

definition getUnitIndexMap :: "Unit list \<Rightarrow> (int \<rightharpoonup> nat)" where
  "getUnitIndexMap us = indexUnits us 0 Map.empty"

text \<open>
  \<open>SymmetryGroup(units)\<close> reads \<open>units[0].elements\<close>: on an empty array this is a
  \<open>TypeError\<close>. The lazily built \<open>unitIndexMap\<close> of the group is \<open>getUnitIndexMap\<close> of
  its units.
\<close>

definition SymmetryGroup :: "hashing \<Rightarrow> Unit list \<Rightarrow> error + SymmetryGroup" where
  "SymmetryGroup hf us =
     (case us of
        [] \<Rightarrow> Inl TypeError
      | u0 # _ \<Rightarrow>
          Inr \<lparr> group_elements = elements (base_of u0), units = us,
                hashCode = hashUnit hf u0, transformHash = getTransformHash hf us \<rparr>)"

definition areInvariantElementsEqual :: "SymmetryGroup \<Rightarrow> SymmetryGroup \<Rightarrow> bool" where
  "areInvariantElementsEqual a b =
     (if hashCode a \<noteq> hashCode b then False
      else SortedArray_areEqual (group_elements a) (group_elements b))"


section \<open>Notions used to state the properties\<close>

text \<open>\<open>v === w\<close> on two reads.\<close>

definition same_value :: "jsnum option \<Rightarrow> jsnum option \<Rightarrow> bool" where
  "same_value v w = (\<not> strict_neq v w)"

text \<open>The three coordinates stored at an index agree (\<open>===\<close>) in two stores.\<close>

definition storedEqualAt :: "Coordinates \<Rightarrow> 'a Coordinates_scheme \<Rightarrow> nat \<Rightarrow> bool" where
  "storedEqualAt a b u =
     (same_value (arr_get (coord_x a) u) (arr_get (coord_x b) u)
      \<and> same_value (arr_get (coord_y a) u) (arr_get (coord_y b) u)
      \<and> same_value (arr_get (coord_z a) u) (arr_get (coord_z b) u))"

text \<open>
  The transformed position of an index under the conformation of a unit agrees with
  the coordinates a model stores at that index.
\<close>

definition transformedEqualsRaw :: "Atomic \<Rightarrow> Model \<Rightarrow> nat \<Rightarrow> bool" where
  "transformedEqualsRaw a m e =
     (case position (conformation a) e of
        (tx, ty, tz) \<Rightarrow>
          same_value (Some tx) (arr_get (coord_x (atomicConformation m)) e)
          \<and> same_value (Some ty) (arr_get (coord_y (atomicConformation m)) e)
          \<and> same_value (Some tz) (arr_get (coord_z (atomicConformation m)) e))"

text \<open>The test \<open>old.props?.canRemap\<close> of \<open>tryRemapBonds\<close>.\<close>

definition markedRemappable :: "'g IntraUnitBonds \<Rightarrow> bool" where
  "markedRemappable b =
     (case bond_props b of None \<Rightarrow> False | Some bp \<Rightarrow> canRemap bp = Some True)"


text \<open>The properties a unit of each class has a getter for.\<close>

definition has_getter :: "computation \<Rightarrow> Unit \<Rightarrow> bool" where
  "has_getter c u =
     (case u of
        UAtomic a \<Rightarrow> True
      | UCoarse a \<Rightarrow> c \<in> {Comp_boundary, Comp_lookup3d, Comp_principalAxes,
                          Comp_polymerElements, Comp_gapElements})"


text \<open>No read of the three coordinate arrays at an index yields NaN.\<close>

definition noNaN_at :: "'a Coordinates_scheme \<Rightarrow> nat \<Rightarrow> bool" where
  "noNaN_at c u =
     (arr_get (coord_x c) u \<noteq> Some NaN \<and> arr_get (coord_y c) u \<noteq> Some NaN
      \<and> arr_get (coord_z c) u \<noteq> Some NaN)"






section \<open>Example objects\<close>

type_synonym ex_heap = "(nat, nat, nat, nat, nat) heap"
type_synonym ex_externals = "(nat, nat, nat, nat, nat) externals"

definition ex_store :: "string \<Rightarrow> nat \<Rightarrow> AtomicConformation" where
  "ex_store name a =
     \<lparr> store_addr = a, coord_x = [Num 0, Num 1], coord_y = [Num 0, Num 0],
       coord_z = [Num 0, Num 0], conf_id = name \<rparr>"

definition ex_coarse :: CoarseConformation where
  "ex_coarse =
     \<lparr> coarse_id = ''coarse'',
       spheres = \<lparr> store_addr = 20, coord_x = [Num 0, Num 2], coord_y = [Num 0, Num 0],
                   coord_z = [Num 0, Num 0], radius = [Num 1, Num 1] \<rparr>,
       gaussians = \<lparr> store_addr = 21, coord_x = [], coord_y = [], coord_z = [] \<rparr> \<rparr>"

definition ex_model :: "nat \<Rightarrow> AtomicConformation \<Rightarrow> IndexPairBonds option \<Rightarrow> Model" where
  "ex_model a st ix =
     \<lparr> model_addr = a, atomicConformation = st, coarseConformation = ex_coarse,
       residueAtomSegments_index = [0, 0], chainAtomSegments_index = [0, 0],
       coarseHierarchy_spheres = 30, coarseHierarchy_gaussians = 31,
       indexPairBonds = ix \<rparr>"

definition modelA :: Model where
  "modelA = ex_model 1 (ex_store ''frame-A'' 10) None"

definition ex_heap0 :: ex_heap where
  "ex_heap0 =
     \<lparr> pstore = (\<lambda>p. no_properties), next_props = 0, next_unit = 0,
       bond_cache = (\<lambda>m. []), calls = [] \<rparr>"

definition ex_ext :: ex_externals where
  "ex_ext =
     \<lparr> compose = (\<lambda>a b. \<lparr> op_name = op_name a @ op_name b, matrix = matrix b \<rparr>),
       getBoundary = (\<lambda>pd. length (indices pd)),
       tryAdjustBoundary = (\<lambda>pd b. Some (length (indices pd))),
       GridLookup3D = (\<lambda>pd b. b),
       getPrincipalAxes = (\<lambda>u. length (elements (base_of u))),
       computeIntraUnitBonds =
         (\<lambda>a. \<lparr> graph = length (elements a), bond_props = Some \<lparr> canRemap = Some True \<rparr> \<rparr>),
       UnitRings_create = (\<lambda>a. 0),
       getAtomicPolymerElements = (\<lambda>a. elements a),
       getCoarsePolymerElements = (\<lambda>c. elements c),
       getAtomicGapElements = (\<lambda>a. []),
       getCoarseGapElements = (\<lambda>c. []),
       getNucleotideElements = (\<lambda>a. []),
       getProteinElements = (\<lambda>a. elements a),
       transientSegments = (\<lambda>ix els. map (\<lambda>e. (e, e, e + 1)) els) \<rparr>"

text \<open>A translation by one along x, and the unit \<open>Unit.create\<close> builds with it.\<close>

definition shift_x :: SymmetryOperator where
  "shift_x = \<lparr> op_name = ''shift'', matrix = translation_matrix 1 0 0 \<rparr>"

definition shifted :: Atomic where
  "shifted =
     \<lparr> addr = 0, unit_id = 1,
       invariantId = 1, chainGroupId = 0, traits = 0, elements = [0], model = modelA,
       conformation = \<lparr> operator = shift_x,
                        coordinates = Coordinates.truncate (atomicConformation modelA),
                        radius_fn = zeroRadius \<rparr>,
       props = 0, residueIndex = [0, 0], chainIndex = [0, 0] \<rparr>"

text \<open>
  Two models (two frames) that each carry an explicit bond index, a different one, and
  a unit of the first whose cached bonds are marked remappable.
\<close>

definition modelA_indexed :: Model where
  "modelA_indexed = ex_model 1 (ex_store ''frame-A'' 10) (Some 40)"

definition modelB_indexed :: Model where
  "modelB_indexed = ex_model 2 (ex_store ''frame-B'' 11) (Some 41)"

definition remappable_bonds :: "nat IntraUnitBonds" where
  "remappable_bonds = \<lparr> graph = 5, bond_props = Some \<lparr> canRemap = Some True \<rparr> \<rparr>"

definition indexed_unit :: Atomic where
  "indexed_unit =
     \<lparr> addr = 0, unit_id = 1,
       invariantId = 1, chainGroupId = 0, traits = 0, elements = [0, 1],
       model = modelA_indexed,
       conformation = \<lparr> operator = shift_x,
                        coordinates = Coordinates.truncate (atomicConformation modelA_indexed),
                        radius_fn = zeroRadius \<rparr>,
       props = 0, residueIndex = [0, 0], chainIndex = [0, 0] \<rparr>"

definition heap_with_bonds :: ex_heap where
  "heap_with_bonds =
     \<lparr> pstore = (\<lambda>p. no_properties)(0 := no_properties \<lparr> bonds := Some remappable_bonds \<rparr>),
       next_props = 1, next_unit = 1, bond_cache = (\<lambda>m. []), calls = [] \<rparr>"

text \<open>
  The heap after \<open>Unit.create\<close> has built the shifted unit; the unit with a further
  operator applied, and the heap after that.
\<close>

definition created_heap :: ex_heap where
  "created_heap = snd (create 1 1 0 0 Kind_Atomic modelA shift_x [0] None ex_heap0)"

definition ex_mate :: Unit where
  "ex_mate = fst (applyOperator ex_ext (UAtomic shifted) 2 shift_x False created_heap)"

definition ex_heap1 :: ex_heap where
  "ex_heap1 = snd (applyOperator ex_ext (UAtomic shifted) 2 shift_x False created_heap)"

text \<open>
  A different model object over the same coordinate store object, and the heap in which
  the shifted unit holds its boundary and spatial lookup.
\<close>

definition modelA_again :: Model where
  "modelA_again = ex_model 3 (ex_store ''frame-A'' 10) None"

definition heap_with_lookup :: ex_heap where
  "heap_with_lookup =
     snd (read ex_ext Comp_lookup3d (UAtomic shifted) created_heap)"

text \<open>A model with other coordinates, and the shifted unit remapped to it once and twice.\<close>

definition modelB :: Model where
  "modelB =
     \<lparr> model_addr = 2,
       atomicConformation =
         \<lparr> store_addr = 11, coord_x = [Num 5, Num 6], coord_y = [Num 0, Num 0],
           coord_z = [Num 0, Num 0], conf_id = ''frame-B'' \<rparr>,
       coarseConformation = ex_coarse,
       residueAtomSegments_index = [0, 0], chainAtomSegments_index = [0, 0],
       coarseHierarchy_spheres = 30, coarseHierarchy_gaussians = 31,
       indexPairBonds = None \<rparr>"











text \<open>Concrete hash functions for the examples, and a unit over a permuted element subset.\<close>

definition ex_hashing :: hashing where
  "ex_hashing =
     \<lparr> hash2 = (\<lambda>i j. 31 * i + j),
       SortedArray_hashCode = (\<lambda>xs. int (length xs)),
       hashFnv32a = (\<lambda>ids. sum_list ids) \<rparr>"

definition permuted_unit :: Unit where
  "permuted_unit = fst (create 3 1 0 0 Kind_Atomic modelA_indexed shift_x [1, 0] None ex_heap0)"

text \<open>
  A unit over the elements of the shifted unit, created with another invariant id.
\<close>

definition other_invariant :: Unit where
  "other_invariant = fst (create 7 2 0 0 Kind_Atomic modelA shift_x [0] None created_heap)"

text \<open>
  A unit created with a property bag that already carries bonds, and a second unit over
  the same model, invariant id and elements created without one.
\<close>

definition given_bonds :: "nat IntraUnitBonds" where
  "given_bonds = \<lparr> graph = 7, bond_props = None \<rparr>"

definition with_given_bonds :: "Unit \<times> ex_heap" where
  "with_given_bonds =
     create 1 1 0 0 Kind_Atomic modelA shift_x [0]
       (Some (no_properties \<lparr> bonds := Some given_bonds \<rparr>)) ex_heap0"

definition without_bonds :: "Unit \<times> ex_heap" where
  "without_bonds =
     create 2 1 0 0 Kind_Atomic modelA shift_x [0] None (snd with_given_bonds)"

definition unit1 :: Atomic where
  "unit1 = shifted"

definition unit2 :: Atomic where
  "unit2 = shifted \<lparr> addr := 1, unit_id := 2, props := 1 \<rparr>"

text \<open>The heap after both units have been created without properties.\<close>

definition two_units_heap :: ex_heap where
  "two_units_heap = snd (create 2 1 0 0 Kind_Atomic modelA shift_x [0] None created_heap)"

text \<open>
  A run on the shifted unit and its mate: the lookup of the unit, the operator, the
  boundary of the mate, the lookup of the unit again, a remap, the lookup of the mate.
\<close>

definition ex_steps :: "step list" where
  "ex_steps =
     [Read Comp_lookup3d (UAtomic shifted),
      ApplyOperator (UAtomic shifted) 2 shift_x False,
      Read Comp_boundary ex_mate,
      Read Comp_lookup3d (UAtomic shifted),
      RemapModel (UAtomic shifted) modelB,
      Read Comp_lookup3d ex_mate]"


section \<open>Facts about the example objects\<close>

lemmas ex_defs = shifted_def modelA_def ex_model_def ex_store_def ex_coarse_def ex_heap0_def
  created_heap_def shift_x_def ex_ext_def modelA_indexed_def modelB_indexed_def remappable_bonds_def
  indexed_unit_def heap_with_bonds_def


section \<open>Coordinate identity\<close>

lemma sameCoordinates_iff:
  "sameCoordinates a b us \<longleftrightarrow> (\<forall>u \<in> set us. storedEqualAt a b u)"
  by (induction us) (auto simp: storedEqualAt_def same_value_def)

text \<open>
  C2 (as amended). \<open>isSameConformation(u, m)\<close> is true exactly when, at every element
  index of \<open>u\<close>, the coordinates held by the coordinate store of \<open>u.conformation\<close> (the
  stored values: the operator of the unit is not applied) are \<open>===\<close> to those stored in
  \<open>m.atomicConformation\<close>; one differing read makes it false.
\<close>

theorem isSameConformation_stored:
  "isSameConformation a m \<longleftrightarrow>
     (\<forall>e \<in> set (elements a).
        storedEqualAt (coordinates (conformation a)) (atomicConformation m) e)"
  by (simp add: isSameConformation_def sameCoordinates_iff)

theorem isSameConformation_stored_witness:
  "isSameConformation shifted modelA
   \<and> storedEqualAt (coordinates (conformation shifted)) (atomicConformation modelA) 0"
  using isSameConformation_stored [of shifted modelA]
  by (simp add: ex_defs storedEqualAt_def same_value_def arr_get_def strict_eq_def
      Coordinates.truncate_def)

text \<open>
  C2 as stated fails: the unit that \<open>Unit.create\<close> builds over the first atom of a model
  with a translation along x is "the same conformation" as its own model, although its
  transformed position (1, 0, 0) is not the stored (0, 0, 0).
\<close>

theorem isSameConformation_transformed_counterexample:
  "fst (create 1 1 0 0 Kind_Atomic modelA shift_x [0] None ex_heap0) = UAtomic shifted
   \<and> isSameConformation shifted modelA
   \<and> \<not> (\<forall>e \<in> set (elements shifted). transformedEqualsRaw shifted modelA e)"
  by (simp add: ex_defs create_def AtomicProperties_def alloc_props_def new_Atomic_def
      createMapping_def isSameConformation_def transformedEqualsRaw_def position_def
      affine_def mat_def operand_def translation_matrix_def Let_def
      same_value_def arr_get_def strict_eq_def Coordinates.truncate_def)


section \<open>Remapping the bonds\<close>

lemma tryRemapBonds_Some:
  "tryRemapBonds a (Some b) m =
     (if conf_id (atomicConformation (model a)) = conf_id (atomicConformation m)
         \<or> (indexPairBonds (model a) \<noteq> None
             \<and> (indexPairBonds m = None \<or> indexPairBonds m = indexPairBonds (model a)))
         \<or> (indexPairBonds (model a) = None
             \<and> (markedRemappable b \<or> isSameConformation a m))
      then Some b else None)"
  by (auto simp: tryRemapBonds_def markedRemappable_def split: option.splits)

lemma Atomic_remapModel_props:
  "pstore (snd (Atomic_remapModel ext a m h)) (props (fst (Atomic_remapModel ext a m h))) =
     (pstore h (props a))
       \<lparr> bonds := tryRemapBonds a (bonds (pstore h (props a))) m,
         boundary :=
           (case boundary (pstore h (props a)) of
              None \<Rightarrow> None
            | Some b \<Rightarrow>
                if \<not> isSameConformation a m
                then tryAdjustBoundary ext (atomicPositions m (elements a)) b
                else Some b),
         lookup3d := None, principalAxes := None \<rparr>"
  by (simp add: Atomic_remapModel_def alloc_props_def new_Atomic_def Let_def)

text \<open>
  C3 (as amended). The bonds held by the unit that \<open>remapModel\<close> returns are
  \<open>tryRemapBonds\<close> of the cached ones. Nothing cached stays nothing. Cached bonds are
  kept exactly when (a) both models have the same atomic-conformation id, or the old
  model carries an explicit bond index and the new model carries none or the same one,
  or the old model carries no explicit bond index and the bonds are marked \<open>canRemap\<close>
  or the coordinates at the elements are the same; otherwise they are dropped.
\<close>

theorem remap_bonds_policy:
  "bonds (pstore (snd (Atomic_remapModel ext a m h)) (props (fst (Atomic_remapModel ext a m h))))
     = tryRemapBonds a (bonds (pstore h (props a))) m
   \<and> tryRemapBonds a None m = (None :: 'g IntraUnitBonds option)
   \<and> tryRemapBonds a (Some b) m =
       (if conf_id (atomicConformation (model a)) = conf_id (atomicConformation m)
           \<or> (indexPairBonds (model a) \<noteq> None
               \<and> (indexPairBonds m = None \<or> indexPairBonds m = indexPairBonds (model a)))
           \<or> (indexPairBonds (model a) = None
               \<and> (markedRemappable b \<or> isSameConformation a m))
        then Some b else None)"
  by (simp add: Atomic_remapModel_props tryRemapBonds_Some) (simp add: tryRemapBonds_def)

theorem remap_bonds_policy_witness:
  "tryRemapBonds indexed_unit (Some remappable_bonds) modelA_indexed = Some remappable_bonds
   \<and> tryRemapBonds indexed_unit (Some remappable_bonds) modelB_indexed = None"
  using remap_bonds_policy [of ex_ext indexed_unit modelA_indexed heap_with_bonds remappable_bonds]
    remap_bonds_policy [of ex_ext indexed_unit modelB_indexed heap_with_bonds remappable_bonds]
  by (simp add: ex_defs markedRemappable_def tryRemapBonds_def)

text \<open>
  C3 as stated fails: \<open>canRemap\<close> alone does not keep the bonds. The unit holds bonds
  marked remappable; its model and the new model carry different explicit bond
  indices; the remapped unit holds no bonds.
\<close>

theorem canRemap_not_sufficient_counterexample:
  "markedRemappable remappable_bonds
   \<and> bonds (pstore heap_with_bonds (props indexed_unit)) = Some remappable_bonds
   \<and> bonds (pstore (snd (Atomic_remapModel ex_ext indexed_unit modelB_indexed heap_with_bonds))
              (props (fst (Atomic_remapModel ex_ext indexed_unit modelB_indexed heap_with_bonds))))
       = None"
  by (simp add: Atomic_remapModel_props)
     (simp add: ex_defs markedRemappable_def tryRemapBonds_def)


section \<open>Memoization of the property getters\<close>

lemmas getter_defs =
  Atomic_boundary_def Atomic_lookup3d_def Atomic_principalAxes_def Atomic_bonds_def
  Atomic_rings_def Atomic_polymerElements_def Atomic_gapElements_def
  Atomic_nucleotideElements_def Atomic_proteinElements_def Atomic_residueCount_def
  Coarse_boundary_def Coarse_lookup3d_def Coarse_principalAxes_def
  Coarse_polymerElements_def Coarse_gapElements_def

lemma read_Atomic_hit:
  "stored c (pstore h (props a)) = Some x \<Longrightarrow> read_Atomic ext c a h = (x, h)"
  by (cases c) (auto simp: read_Atomic_def stored_def tagged_def getter_defs)

lemma read_Coarse_hit:
  "stored c (pstore h (props a)) = Some x \<Longrightarrow> has_getter c (UCoarse a) \<Longrightarrow> read_Coarse ext c a h = (x, h)"
  by (cases c) (auto simp: read_Coarse_def stored_def tagged_def getter_defs has_getter_def)

lemma read_Atomic_stores:
  "read_Atomic ext c a h = (x, h') \<Longrightarrow> stored c (pstore h' (props a)) = Some x"
  by (cases c)
     (auto simp: read_Atomic_def stored_def tagged_def getter_defs set_props_def log_call_def
        Let_def split: option.splits prod.splits)

lemma read_Coarse_stores:
  "read_Coarse ext c a h = (x, h') \<Longrightarrow> has_getter c (UCoarse a) \<Longrightarrow> stored c (pstore h' (props a)) = Some x"
  by (cases c)
     (auto simp: read_Coarse_def stored_def tagged_def getter_defs set_props_def log_call_def
        has_getter_def Let_def split: option.splits prod.splits)

lemma read_Coarse_undefined:
  "\<not> has_getter c (UCoarse a) \<Longrightarrow> read_Coarse ext c a h = (V_undefined, h)"
  by (cases c) (auto simp: read_Coarse_def has_getter_def)


lemma read_Atomic_mono:
  "read_Atomic ext c a h = (y, h') \<Longrightarrow> stored d (pstore h p) = Some x \<Longrightarrow>
   stored d (pstore h' p) = Some x"
  by (cases c; cases d)
     (auto simp: read_Atomic_def stored_def tagged_def getter_defs set_props_def log_call_def
        Let_def split: option.splits prod.splits)

lemma read_Coarse_mono:
  "read_Coarse ext c a h = (y, h') \<Longrightarrow> stored d (pstore h p) = Some x \<Longrightarrow>
   stored d (pstore h' p) = Some x"
  by (cases c; cases d)
     (auto simp: read_Coarse_def stored_def tagged_def getter_defs set_props_def log_call_def
        Let_def split: option.splits prod.splits)

lemma read_Atomic_log:
  "read_Atomic ext c a h = (y, h') \<Longrightarrow>
   \<exists>es. calls h' = calls h @ es \<and> distinct es
        \<and> (\<forall>e \<in> set es. stored (fst e) (cache_of h (snd e)) = None
                          \<and> stored (fst e) (cache_of h' (snd e)) \<noteq> None)"
  by (cases c)
     (auto simp: read_Atomic_def stored_def tagged_def getter_defs set_props_def log_call_def
        cache_of_def base_of_def Base.truncate_def
        Let_def split: option.splits prod.splits)

lemma read_Coarse_log:
  "read_Coarse ext c a h = (y, h') \<Longrightarrow>
   \<exists>es. calls h' = calls h @ es \<and> distinct es
        \<and> (\<forall>e \<in> set es. stored (fst e) (cache_of h (snd e)) = None
                          \<and> stored (fst e) (cache_of h' (snd e)) \<noteq> None)"
  by (cases c)
     (auto simp: read_Coarse_def stored_def tagged_def getter_defs set_props_def log_call_def
        cache_of_def base_of_def Base.truncate_def
        Let_def split: option.splits prod.splits)


lemma read_hit:
  "has_getter c u \<Longrightarrow> stored c (cache_of h u) = Some x \<Longrightarrow> read ext c u h = (x, h)"
proof (cases u)
  case (UAtomic a)
  assume "stored c (cache_of h u) = Some x"
  with UAtomic have "stored c (pstore h (props a)) = Some x"
    by (simp add: cache_of_def base_of_def Base.truncate_def)
  from read_Atomic_hit [OF this] UAtomic show ?thesis by (simp add: read_def)
next
  case (UCoarse a)
  assume g: "has_getter c u" and "stored c (cache_of h u) = Some x"
  with UCoarse have "stored c (pstore h (props a)) = Some x"
    by (simp add: cache_of_def base_of_def Base.truncate_def)
  from read_Coarse_hit [OF this] g UCoarse show ?thesis by (simp add: read_def)
qed

lemma read_undefined:
  "\<not> has_getter c u \<Longrightarrow> read ext c u h = (V_undefined, h)"
proof (cases u)
  case (UAtomic a)
  assume "\<not> has_getter c u"
  with UAtomic show ?thesis by (simp add: has_getter_def)
next
  case (UCoarse a)
  assume "\<not> has_getter c u"
  with UCoarse read_Coarse_undefined [of c a ext h] show ?thesis by (simp add: read_def)
qed

lemma read_stores:
  "has_getter c u \<Longrightarrow> read ext c u h = (x, h') \<Longrightarrow> stored c (cache_of h' u) = Some x"
proof (cases u)
  case (UAtomic a)
  assume "read ext c u h = (x, h')"
  with UAtomic have "read_Atomic ext c a h = (x, h')" by (simp add: read_def)
  from read_Atomic_stores [OF this] UAtomic show ?thesis
    by (simp add: cache_of_def base_of_def Base.truncate_def)
next
  case (UCoarse a)
  assume g: "has_getter c u" and "read ext c u h = (x, h')"
  with UCoarse have "read_Coarse ext c a h = (x, h')" by (simp add: read_def)
  from read_Coarse_stores [OF this] g UCoarse show ?thesis
    by (simp add: cache_of_def base_of_def Base.truncate_def)
qed


lemma read_mono:
  "read ext c u h = (y, h') \<Longrightarrow> stored d (pstore h p) = Some x \<Longrightarrow>
   stored d (pstore h' p) = Some x"
proof (cases u)
  case (UAtomic a)
  assume "read ext c u h = (y, h')" "stored d (pstore h p) = Some x"
  with UAtomic show ?thesis using read_Atomic_mono [of ext c a h y h' d p x] by (simp add: read_def)
next
  case (UCoarse a)
  assume "read ext c u h = (y, h')" "stored d (pstore h p) = Some x"
  with UCoarse show ?thesis using read_Coarse_mono [of ext c a h y h' d p x] by (simp add: read_def)
qed

lemma read_log:
  "read ext c u h = (y, h') \<Longrightarrow>
   \<exists>es. calls h' = calls h @ es \<and> distinct es
        \<and> (\<forall>e \<in> set es. stored (fst e) (cache_of h (snd e)) = None
                          \<and> stored (fst e) (cache_of h' (snd e)) \<noteq> None)"
proof (cases u)
  case (UAtomic a)
  assume "read ext c u h = (y, h')"
  with UAtomic have "read_Atomic ext c a h = (y, h')" by (simp add: read_def)
  then show ?thesis by (rule read_Atomic_log)
next
  case (UCoarse a)
  assume "read ext c u h = (y, h')"
  with UCoarse have "read_Coarse ext c a h = (y, h')" by (simp add: read_def)
  then show ?thesis by (rule read_Coarse_log)
qed

lemma read_twice:
  "read ext c u h = (x, h1) \<Longrightarrow> read ext c u h1 = (x, h1)"
proof (cases "has_getter c u")
  case True
  assume r: "read ext c u h = (x, h1)"
  from read_stores [OF True r] have "stored c (cache_of h1 u) = Some x" .
  from read_hit [OF True this] show ?thesis .
next
  case False
  assume r: "read ext c u h = (x, h1)"
  from read_undefined [OF False, of ext h] r have "x = V_undefined" "h1 = h" by simp_all
  with read_undefined [OF False, of ext h] show ?thesis by simp
qed

lemmas op_defs = getChild_def Atomic_getChild_def Coarse_getChild_def
  applyOperator_def Atomic_applyOperator_def Coarse_applyOperator_def kind_of_def
  Atomic_kind_def

lemmas eval_defs = read_def read_Atomic_def read_Coarse_def tagged_def getter_defs
  set_props_def log_call_def cache_of_def base_of_def Base.truncate_def stored_def
  atomicPositions_def coarsePositions_def no_properties_def cache_get_def
  alloc_props_def new_Atomic_def new_Coarse_def createCoarse_def createMapping_def
  AtomicProperties_def CoarseProperties_def create_def Coordinates.truncate_def
  getCoarseConformation_def

lemma read_Atomic_frame:
  "read_Atomic ext c a h = (y, h') \<Longrightarrow> next_props h' = next_props h"
  by (cases c)
     (auto simp: read_Atomic_def tagged_def getter_defs set_props_def log_call_def
        Let_def split: option.splits prod.splits)

lemma read_Coarse_frame:
  "read_Coarse ext c a h = (y, h') \<Longrightarrow> next_props h' = next_props h"
  by (cases c)
     (auto simp: read_Coarse_def tagged_def getter_defs set_props_def log_call_def
        Let_def split: option.splits prod.splits)

lemma read_frame: "read ext c u h = (y, h') \<Longrightarrow> next_props h' = next_props h"
proof (cases u)
  case (UAtomic a)
  assume "read ext c u h = (y, h')"
  with UAtomic have "read_Atomic ext c a h = (y, h')" by (simp add: read_def)
  then show ?thesis by (rule read_Atomic_frame)
next
  case (UCoarse a)
  assume "read ext c u h = (y, h')"
  with UCoarse have "read_Coarse ext c a h = (y, h')" by (simp add: read_def)
  then show ?thesis by (rule read_Coarse_frame)
qed

lemma read_Atomic_log_unit:
  "read_Atomic ext c a h = (y, h') \<Longrightarrow>
   \<exists>es. calls h' = calls h @ es \<and> (\<forall>e \<in> set es. snd e = UAtomic a)"
  by (cases c)
     (auto simp: read_Atomic_def tagged_def getter_defs set_props_def log_call_def
        Let_def split: option.splits prod.splits)

lemma read_Coarse_log_unit:
  "read_Coarse ext c a h = (y, h') \<Longrightarrow>
   \<exists>es. calls h' = calls h @ es \<and> (\<forall>e \<in> set es. snd e = UCoarse a)"
  by (cases c)
     (auto simp: read_Coarse_def tagged_def getter_defs set_props_def log_call_def
        Let_def split: option.splits prod.splits)

lemma read_log_unit:
  "read ext c u h = (y, h') \<Longrightarrow>
   \<exists>es. calls h' = calls h @ es \<and> (\<forall>e \<in> set es. snd e = u)"
proof (cases u)
  case (UAtomic a)
  assume "read ext c u h = (y, h')"
  with UAtomic have "read_Atomic ext c a h = (y, h')" by (simp add: read_def)
  from read_Atomic_log_unit [OF this] UAtomic show ?thesis by simp
next
  case (UCoarse a)
  assume "read ext c u h = (y, h')"
  with UCoarse have "read_Coarse ext c a h = (y, h')" by (simp add: read_def)
  from read_Coarse_log_unit [OF this] UCoarse show ?thesis by simp
qed

text \<open>The operations that derive a unit log nothing and change no allocated bag.\<close>

lemma getChild_frame:
  "getChild u s h = (v, h') \<Longrightarrow>
     calls h' = calls h \<and> next_props h \<le> next_props h'
     \<and> (\<forall>p. p < next_props h \<longrightarrow> pstore h' p = pstore h p)"
  by (cases u)
     (auto simp: getChild_def Atomic_getChild_def Coarse_getChild_def AtomicProperties_def
        CoarseProperties_def alloc_props_def new_Atomic_def new_Coarse_def createCoarse_def
        split: if_splits)

lemma applyOperator_frame:
  "applyOperator ext u i opr d h = (v, h') \<Longrightarrow>
     calls h' = calls h \<and> next_props h \<le> next_props h'
     \<and> (\<forall>p. p < next_props h \<longrightarrow> pstore h' p = pstore h p)"
  by (cases u)
     (auto simp: applyOperator_def Atomic_applyOperator_def Coarse_applyOperator_def
        new_Atomic_def new_Coarse_def createCoarse_def Let_def)

lemma remapModel_frame:
  "remapModel ext u m h = (v, h') \<Longrightarrow>
     calls h' = calls h \<and> next_props h \<le> next_props h'
     \<and> (\<forall>p. p < next_props h \<longrightarrow> pstore h' p = pstore h p)"
  by (cases u)
     (auto simp: remapModel_def Atomic_remapModel_def Coarse_remapModel_def
        alloc_props_def new_Atomic_def new_Coarse_def Let_def split: prod.splits)


lemma exec_next: "exec ext s h = (v, h1) \<Longrightarrow> next_props h \<le> next_props h1"
proof (cases s)
  case (Read c u)
  assume "exec ext s h = (v, h1)"
  with Read obtain y where "read ext c u h = (y, h1)"
    by (auto simp: tagged_def split: prod.splits)
  from read_frame [OF this] show ?thesis by simp
next
  case (GetChild u els)
  assume "exec ext s h = (v, h1)"
  with GetChild obtain y where "getChild u els h = (y, h1)"
    by (auto simp: tagged_def split: prod.splits)
  from getChild_frame [OF this] show ?thesis by simp
next
  case (ApplyOperator u i opr d)
  assume "exec ext s h = (v, h1)"
  with ApplyOperator obtain y where "applyOperator ext u i opr d h = (y, h1)"
    by (auto simp: tagged_def split: prod.splits)
  from applyOperator_frame [OF this] show ?thesis by simp
next
  case (RemapModel u m)
  assume "exec ext s h = (v, h1)"
  with RemapModel obtain y where "remapModel ext u m h = (y, h1)"
    by (auto simp: tagged_def split: prod.splits)
  from remapModel_frame [OF this] show ?thesis by simp
qed

lemma exec_mono:
  assumes x: "exec ext s h = (v, h1)" and p: "p < next_props h"
    and st: "stored d (pstore h p) = Some x"
  shows "stored d (pstore h1 p) = Some x"
proof (cases s)
  case (Read c u)
  with x obtain y where "read ext c u h = (y, h1)"
    by (auto simp: tagged_def split: prod.splits)
  from read_mono [OF this st] show ?thesis .
next
  case (GetChild u els)
  with x obtain y where "getChild u els h = (y, h1)"
    by (auto simp: tagged_def split: prod.splits)
  from getChild_frame [OF this] p st show ?thesis by simp
next
  case (ApplyOperator u i opr d)
  with x obtain y where "applyOperator ext u i opr d h = (y, h1)"
    by (auto simp: tagged_def split: prod.splits)
  from applyOperator_frame [OF this] p st show ?thesis by simp
next
  case (RemapModel u m)
  with x obtain y where "remapModel ext u m h = (y, h1)"
    by (auto simp: tagged_def split: prod.splits)
  from remapModel_frame [OF this] p st show ?thesis by simp
qed

lemma exec_log:
  assumes x: "exec ext s h = (v, h1)"
  shows "\<exists>es. calls h1 = calls h @ es \<and> distinct es
        \<and> (\<forall>e \<in> set es. snd e = receiver s
                          \<and> stored (fst e) (cache_of h (snd e)) = None
                          \<and> stored (fst e) (cache_of h1 (snd e)) \<noteq> None)"
proof (cases s)
  case (Read c u)
  with x obtain y where r: "read ext c u h = (y, h1)"
    by (auto simp: tagged_def split: prod.splits)
  from read_log [OF r] obtain es where es: "calls h1 = calls h @ es" "distinct es"
    "\<forall>e \<in> set es. stored (fst e) (cache_of h (snd e)) = None
                  \<and> stored (fst e) (cache_of h1 (snd e)) \<noteq> None" by blast
  from read_log_unit [OF r] obtain es' where es': "calls h1 = calls h @ es'"
    "\<forall>e \<in> set es'. snd e = u" by blast
  from es(1) es'(1) have "es' = es" by simp
  with es es'(2) Read show ?thesis by auto
next
  case (GetChild u els)
  with x obtain y where "getChild u els h = (y, h1)"
    by (auto simp: tagged_def split: prod.splits)
  from getChild_frame [OF this] show ?thesis by simp
next
  case (ApplyOperator u i opr d)
  with x obtain y where "applyOperator ext u i opr d h = (y, h1)"
    by (auto simp: tagged_def split: prod.splits)
  from applyOperator_frame [OF this] show ?thesis by simp
next
  case (RemapModel u m)
  with x obtain y where "remapModel ext u m h = (y, h1)"
    by (auto simp: tagged_def split: prod.splits)
  from remapModel_frame [OF this] show ?thesis by simp
qed

lemma run_length: "run ext ss h = (vs, h') \<Longrightarrow> length vs = length ss"
  by (induction ss arbitrary: h vs) (auto split: prod.splits)

lemma run_log:
  "allocated ext ss h \<Longrightarrow> run ext ss h = (vs, h') \<Longrightarrow>
   \<exists>es. calls h' = calls h @ es \<and> distinct es
        \<and> (\<forall>e \<in> set es. props (base_of (snd e)) < next_props h \<longrightarrow>
               stored (fst e) (cache_of h (snd e)) = None)"
proof (induction ss arbitrary: h vs)
  case Nil
  then show ?case by simp
next
  case (Cons s ss)
  obtain v h1 where x: "exec ext s h = (v, h1)"
    by (cases "exec ext s h") blast
  obtain ws h2 where rs0: "run ext ss h1 = (ws, h2)"
    by (cases "run ext ss h1") blast
  from Cons.prems(2) x rs0 have h2: "h2 = h'" by simp
  from rs0 h2 have rs: "run ext ss h1 = (ws, h')" by simp
  from Cons.prems(1) x have al: "props (base_of (receiver s)) < next_props h"
    "allocated ext ss h1" by simp_all
  from exec_next [OF x] have nx: "next_props h \<le> next_props h1" .
  from exec_log [OF x] obtain e1 where e1: "calls h1 = calls h @ e1" "distinct e1"
    "\<forall>e \<in> set e1. snd e = receiver s
                  \<and> stored (fst e) (cache_of h (snd e)) = None
                  \<and> stored (fst e) (cache_of h1 (snd e)) \<noteq> None" by blast
  from Cons.IH [OF al(2) rs] obtain e2 where e2: "calls h' = calls h1 @ e2" "distinct e2"
    "\<forall>e \<in> set e2. props (base_of (snd e)) < next_props h1 \<longrightarrow>
                  stored (fst e) (cache_of h1 (snd e)) = None" by blast
  have earlier: "stored (fst e) (cache_of h (snd e)) = None"
    if "e \<in> set e2" "props (base_of (snd e)) < next_props h" for e
  proof (rule ccontr)
    assume "stored (fst e) (cache_of h (snd e)) \<noteq> None"
    then obtain y where "stored (fst e) (pstore h (props (base_of (snd e)))) = Some y"
      by (auto simp: cache_of_def)
    from exec_mono [OF x that(2) this] have "stored (fst e) (cache_of h1 (snd e)) = Some y"
      by (simp add: cache_of_def)
    moreover from that nx e2(3) have "stored (fst e) (cache_of h1 (snd e)) = None" by auto
    ultimately show False by simp
  qed
  have "set e1 \<inter> set e2 = {}"
  proof (rule ccontr)
    assume "set e1 \<inter> set e2 \<noteq> {}"
    then obtain e where e: "e \<in> set e1" "e \<in> set e2" by blast
    from e(1) e1(3) al(1) nx have "props (base_of (snd e)) < next_props h1"
      "stored (fst e) (cache_of h1 (snd e)) \<noteq> None" by auto
    with e(2) e2(3) show False by auto
  qed
  with e1 e2 earlier have "calls h' = calls h @ (e1 @ e2) \<and> distinct (e1 @ e2)
     \<and> (\<forall>e \<in> set (e1 @ e2). props (base_of (snd e)) < next_props h \<longrightarrow>
            stored (fst e) (cache_of h (snd e)) = None)"
    by auto
  then show ?case by blast
qed

lemma run_hit:
  "allocated ext ss h \<Longrightarrow> run ext ss h = (vs, h') \<Longrightarrow> props (base_of u) < next_props h \<Longrightarrow>
   (has_getter c u \<longrightarrow> stored c (cache_of h u) = Some x) \<Longrightarrow>
   (\<not> has_getter c u \<longrightarrow> x = V_undefined) \<Longrightarrow>
   j < length ss \<Longrightarrow> ss ! j = Read c u \<Longrightarrow> vs ! j = Value x"
proof (induction ss arbitrary: h vs j)
  case Nil
  then show ?case by simp
next
  case (Cons s ss)
  obtain v h1 where x: "exec ext s h = (v, h1)"
    by (cases "exec ext s h") blast
  obtain ws h2 where rs0: "run ext ss h1 = (ws, h2)"
    by (cases "run ext ss h1") blast
  from Cons.prems(2) x rs0 have vs: "vs = v # ws" and h2: "h2 = h'" by simp_all
  from rs0 h2 have rs: "run ext ss h1 = (ws, h')" by simp
  from Cons.prems(1) x have al: "allocated ext ss h1" by simp
  have rd: "read ext c u h = (x, h)"
  proof (cases "has_getter c u")
    case True
    with Cons.prems(4) show ?thesis by (simp add: read_hit)
  next
    case False
    with Cons.prems(5) show ?thesis by (simp add: read_undefined)
  qed
  show ?case
  proof (cases j)
    case 0
    with Cons.prems(7) have "s = Read c u" by simp
    with x rd have "v = Value x" by (simp add: tagged_def)
    with vs 0 show ?thesis by simp
  next
    case (Suc k)
    from exec_next [OF x] Cons.prems(3) have p1: "props (base_of u) < next_props h1" by simp
    have st: "has_getter c u \<longrightarrow> stored c (cache_of h1 u) = Some x"
      using Cons.prems(3,4) exec_mono [OF x] by (auto simp: cache_of_def)
    from Cons.prems(6,7) Suc have "k < length ss" "ss ! k = Read c u" by simp_all
    from Cons.IH [OF al rs p1 st Cons.prems(5) this] vs Suc show ?thesis by simp
  qed
qed

lemma run_repeat:
  "allocated ext ss h \<Longrightarrow> run ext ss h = (vs, h') \<Longrightarrow> i < j \<Longrightarrow> j < length ss \<Longrightarrow>
   ss ! i = Read c u \<Longrightarrow> ss ! j = Read c u \<Longrightarrow> vs ! j = vs ! i"
proof (induction ss arbitrary: h vs i j)
  case Nil
  then show ?case by simp
next
  case (Cons s ss)
  obtain v h1 where x: "exec ext s h = (v, h1)"
    by (cases "exec ext s h") blast
  obtain ws h2 where rs0: "run ext ss h1 = (ws, h2)"
    by (cases "run ext ss h1") blast
  from Cons.prems(2) x rs0 have vs: "vs = v # ws" and h2: "h2 = h'" by simp_all
  from rs0 h2 have rs: "run ext ss h1 = (ws, h')" by simp
  from Cons.prems(1) x have al: "props (base_of (receiver s)) < next_props h"
    "allocated ext ss h1" by simp_all
  from Cons.prems(3) obtain k where j: "j = Suc k" by (cases j) auto
  show ?case
  proof (cases i)
    case 0
    with Cons.prems(5) have s: "s = Read c u" by simp
    with x obtain y where r: "read ext c u h = (y, h1)" and v: "v = Value y"
      by (auto simp: tagged_def split: prod.splits)
    from al(1) s read_frame [OF r] have p1: "props (base_of u) < next_props h1" by simp
    have st: "has_getter c u \<longrightarrow> stored c (cache_of h1 u) = Some y"
      using r by (simp add: read_stores)
    have un: "\<not> has_getter c u \<longrightarrow> y = V_undefined"
      using r read_undefined [of c u ext h] by auto
    from Cons.prems(4,6) j have "k < length ss" "ss ! k = Read c u" by simp_all
    from run_hit [OF al(2) rs p1 st un this] vs v 0 j show ?thesis by simp
  next
    case (Suc l)
    with Cons.prems j have "l < k" "k < length ss" "ss ! l = Read c u" "ss ! k = Read c u"
      by simp_all
    from Cons.IH [OF al(2) rs this] vs Suc j show ?thesis by simp
  qed
qed

text \<open>
  C8. Every derived-property getter is memoized. In any run of property reads and of
  operations that derive units, each step on a unit whose bag is allocated, a computation
  is logged at most once for a given unit and property (and, for a bag allocated at the
  start, only for a property it did not hold then), and a read that repeats an earlier
  read of the same property on the same unit returns the value the earlier one returned.
\<close>

theorem accessors_memoized:
  "allocated ext ss h \<Longrightarrow> run ext ss h = (vs, h') \<Longrightarrow>
     length vs = length ss
     \<and> (\<exists>es. calls h' = calls h @ es \<and> distinct es
             \<and> (\<forall>e \<in> set es. props (base_of (snd e)) < next_props h \<longrightarrow>
                    stored (fst e) (cache_of h (snd e)) = None))
     \<and> (\<forall>i j c u. i < j \<and> j < length ss \<and> ss ! i = Read c u \<and> ss ! j = Read c u \<longrightarrow>
            vs ! j = vs ! i)"
  using run_length run_log run_repeat by blast

theorem accessors_memoized_witness:
  "allocated ex_ext ex_steps created_heap
   \<and> length (fst (run ex_ext ex_steps created_heap)) = 6
   \<and> calls (snd (run ex_ext ex_steps created_heap)) =
       [(Comp_boundary, UAtomic shifted), (Comp_lookup3d, UAtomic shifted)]
   \<and> fst (run ex_ext ex_steps created_heap) ! 3 = fst (run ex_ext ex_steps created_heap) ! 0
   \<and> fst (run ex_ext ex_steps created_heap) ! 5 = Value (V_lookup3d 1)"
proof -
  have al: "allocated ex_ext ex_steps created_heap"
    by (simp add: ex_steps_def ex_mate_def modelB_def op_defs remapModel_def
        Atomic_remapModel_def isSameConformation_def arr_get_def strict_eq_def
        ex_defs eval_defs Let_def)
  have ev: "calls (snd (run ex_ext ex_steps created_heap)) =
       [(Comp_boundary, UAtomic shifted), (Comp_lookup3d, UAtomic shifted)]
     \<and> fst (run ex_ext ex_steps created_heap) ! 5 = Value (V_lookup3d 1)"
    by (simp add: ex_steps_def ex_mate_def modelB_def op_defs remapModel_def
        Atomic_remapModel_def isSameConformation_def arr_get_def strict_eq_def
        ex_defs eval_defs Let_def)
  have r: "run ex_ext ex_steps created_heap =
      (fst (run ex_ext ex_steps created_heap), snd (run ex_ext ex_steps created_heap))"
    by simp
  note t = accessors_memoized [OF al r]
  from t have l: "length (fst (run ex_ext ex_steps created_heap)) = length ex_steps" by blast
  from t have "\<forall>i j c u. i < j \<and> j < length ex_steps \<and> ex_steps ! i = Read c u
      \<and> ex_steps ! j = Read c u \<longrightarrow>
      fst (run ex_ext ex_steps created_heap) ! j = fst (run ex_ext ex_steps created_heap) ! i"
    by blast
  then have "(0::nat) < 3 \<and> 3 < length ex_steps
      \<and> ex_steps ! 0 = Read Comp_lookup3d (UAtomic shifted)
      \<and> ex_steps ! 3 = Read Comp_lookup3d (UAtomic shifted) \<longrightarrow>
      fst (run ex_ext ex_steps created_heap) ! 3 = fst (run ex_ext ex_steps created_heap) ! 0"
    by blast
  then have "fst (run ex_ext ex_steps created_heap) ! 3 = fst (run ex_ext ex_steps created_heap) ! 0"
    by (simp add: ex_steps_def)
  with al ev l show ?thesis by (simp add: ex_steps_def)
qed


section \<open>Children and operators\<close>

text \<open>
  C4. \<open>getChild\<close> returns the unit itself, and leaves the heap as it is, whenever the
  element set has the length of the elements of the unit (so for the elements of the
  unit themselves); otherwise it returns a new unit object over the given elements, of
  the same kind, ids, traits, model and conformation, whose property bag is a new, empty
  one, and no other bag is touched.
\<close>

theorem getChild_unit:
  "(length s = length (elements (base_of u)) \<longrightarrow> getChild u s h = (u, h))
   \<and> getChild u (elements (base_of u)) h = (u, h)
   \<and> (length s \<noteq> length (elements (base_of u)) \<longrightarrow>
        (case getChild u s h of
           (c, h') \<Rightarrow>
             addr (base_of c) = next_unit h \<and> next_unit h' = Suc (next_unit h)
             \<and> elements (base_of c) = s
             \<and> kind_of c = kind_of u
             \<and> unit_id (base_of c) = unit_id (base_of u)
             \<and> invariantId (base_of c) = invariantId (base_of u)
             \<and> chainGroupId (base_of c) = chainGroupId (base_of u)
             \<and> traits (base_of c) = traits (base_of u)
             \<and> model (base_of c) = model (base_of u)
             \<and> conformation (base_of c) = conformation (base_of u)
             \<and> props (base_of c) = next_props h \<and> next_props h' = Suc (next_props h)
             \<and> cache_of h' c = no_properties
             \<and> (\<forall>p. p \<noteq> next_props h \<longrightarrow> pstore h' p = pstore h p)))"
  by (cases u)
     (simp_all add: getChild_def Atomic_getChild_def Coarse_getChild_def kind_of_def
        AtomicProperties_def CoarseProperties_def alloc_props_def new_Atomic_def
        new_Coarse_def createCoarse_def cache_of_def base_of_def Base.truncate_def)

theorem getChild_unit_witness:
  "getChild (UAtomic indexed_unit) [0, 1] heap_with_bonds = (UAtomic indexed_unit, heap_with_bonds)
   \<and> elements (base_of (fst (getChild (UAtomic indexed_unit) [0] heap_with_bonds))) = [0]
   \<and> cache_of (snd (getChild (UAtomic indexed_unit) [0] heap_with_bonds))
        (fst (getChild (UAtomic indexed_unit) [0] heap_with_bonds)) = no_properties
   \<and> bonds (cache_of heap_with_bonds (UAtomic indexed_unit)) = Some remappable_bonds"
proof -
  have e: "elements (base_of (UAtomic indexed_unit)) = [0, 1]"
    by (simp add: indexed_unit_def base_of_def Base.truncate_def)
  have b: "bonds (cache_of heap_with_bonds (UAtomic indexed_unit)) = Some remappable_bonds"
    by (simp add: indexed_unit_def heap_with_bonds_def cache_of_def base_of_def
        Base.truncate_def)
  from getChild_unit [where u = "UAtomic indexed_unit" and s = "[0]" and h = heap_with_bonds]
    getChild_unit [where u = "UAtomic indexed_unit" and s = "[0, 1]" and h = heap_with_bonds]
    e b
  show ?thesis by (simp add: case_prod_beta)
qed

text \<open>
  C9. \<open>applyOperator(id, op, dontCompose)\<close> returns a new unit object that carries the
  given id and the invariant id, chain-group id, traits, elements, model and kind of the
  unit; its operator is the composition of the operator of the unit with \<open>op\<close>, or
  \<open>op\<close> itself when \<open>dontCompose\<close> is set.
\<close>

theorem applyOperator_unit:
  "applyOperator ext u i opr dontCompose h = (v, h') \<Longrightarrow>
     unit_id (base_of v) = i
     \<and> invariantId (base_of v) = invariantId (base_of u)
     \<and> chainGroupId (base_of v) = chainGroupId (base_of u)
     \<and> traits (base_of v) = traits (base_of u)
     \<and> elements (base_of v) = elements (base_of u)
     \<and> model (base_of v) = model (base_of u)
     \<and> kind_of v = kind_of u
     \<and> operator (conformation (base_of v)) =
         (if dontCompose then opr else compose ext (operator (conformation (base_of u))) opr)
     \<and> addr (base_of v) = next_unit h \<and> next_unit h' = Suc (next_unit h)"
  by (cases u)
     (auto simp: applyOperator_def Atomic_applyOperator_def Coarse_applyOperator_def
        kind_of_def new_Atomic_def new_Coarse_def createCoarse_def createMapping_def
        base_of_def Base.truncate_def Let_def)

theorem applyOperator_unit_witness:
  "unit_id (base_of ex_mate) = 2
   \<and> invariantId (base_of ex_mate) = 1
   \<and> operator (conformation (base_of ex_mate)) = compose ex_ext shift_x shift_x
   \<and> operator (conformation (base_of
         (fst (applyOperator ex_ext (UAtomic shifted) 2 shift_x True created_heap)))) = shift_x"
  using applyOperator_unit [of ex_ext "UAtomic shifted" 2 shift_x False created_heap ex_mate ex_heap1]
    applyOperator_unit [of ex_ext "UAtomic shifted" 2 shift_x True created_heap
      "fst (applyOperator ex_ext (UAtomic shifted) 2 shift_x True created_heap)"
      "snd (applyOperator ex_ext (UAtomic shifted) 2 shift_x True created_heap)"]
  by (simp add: ex_mate_def ex_heap1_def shifted_def base_of_def Base.truncate_def)

lemma applyOperator_class:
  "applyOperator ext u i opr dontCompose h = (v, h') \<Longrightarrow>
     props (base_of v) = props (base_of u) \<and> pstore h' = pstore h
     \<and> (\<forall>c. has_getter c v = has_getter c u)"
  by (cases u)
     (auto simp: applyOperator_def Atomic_applyOperator_def Coarse_applyOperator_def
        new_Atomic_def new_Coarse_def createCoarse_def has_getter_def
        base_of_def Base.truncate_def Let_def)

lemma read_shared:
  assumes p: "props (base_of v) = props (base_of u)"
    and g: "has_getter c v = has_getter c u"
    and r: "read ext c v k = (x, k')"
  shows "read ext c u k' = (x, k') \<and> (has_getter c u \<longrightarrow> stored c (cache_of k' u) = Some x)"
proof (cases "has_getter c v")
  case True
  from read_stores [OF True r] p have st: "stored c (cache_of k' u) = Some x"
    by (simp add: cache_of_def)
  from True g have "has_getter c u" by simp
  from read_hit [OF this st] st show ?thesis by simp
next
  case False
  from read_undefined [OF False, of ext k] r have "x = V_undefined" "k' = k" by simp_all
  moreover from False g have "\<not> has_getter c u" by simp
  ultimately show ?thesis using read_undefined [of c u ext k] by simp
qed

text \<open>
  C10. The unit \<open>applyOperator\<close> returns holds the very property bag of the unit it
  came from: no bag is created or changed, the two units see the same cache state in
  every later heap, and a property read on one of them is afterwards held for the other,
  which returns it without computing (the boundary, the lookup and the axes included).
\<close>

theorem applyOperator_shares_cache:
  "applyOperator ext u i opr dontCompose h = (v, h') \<Longrightarrow>
     props (base_of v) = props (base_of u) \<and> pstore h' = pstore h
     \<and> cache_of h' v = cache_of h u
     \<and> (\<forall>k. cache_of k v = cache_of k u)
     \<and> (\<forall>c k x k'. read ext c v k = (x, k') \<longrightarrow>
           read ext c u k' = (x, k') \<and> (has_getter c u \<longrightarrow> stored c (cache_of k' u) = Some x))
     \<and> (\<forall>c k x k'. read ext c u k = (x, k') \<longrightarrow>
           read ext c v k' = (x, k') \<and> (has_getter c v \<longrightarrow> stored c (cache_of k' v) = Some x))"
proof -
  assume a: "applyOperator ext u i opr dontCompose h = (v, h')"
  from applyOperator_class [OF a] have p: "props (base_of v) = props (base_of u)"
    and s: "pstore h' = pstore h" and g: "\<And>c. has_getter c v = has_getter c u" by simp_all
  from p s have c1: "cache_of h' v = cache_of h u" "\<forall>k. cache_of k v = cache_of k u"
    by (simp_all add: cache_of_def)
  have c2: "read ext c u k' = (x, k') \<and> (has_getter c u \<longrightarrow> stored c (cache_of k' u) = Some x)"
    if "read ext c v k = (x, k')" for c k x k'
    using read_shared [OF p g that] .
  have c3: "read ext c v k' = (x, k') \<and> (has_getter c v \<longrightarrow> stored c (cache_of k' v) = Some x)"
    if "read ext c u k = (x, k')" for c k x k'
    using read_shared [OF p [symmetric] g [symmetric] that] .
  from p s c1 c2 c3 show ?thesis by blast
qed

theorem applyOperator_shares_cache_witness:
  "props (base_of ex_mate) = props (base_of (UAtomic shifted))
   \<and> read ex_ext Comp_boundary (UAtomic shifted)
        (snd (read ex_ext Comp_boundary ex_mate ex_heap1))
       = read ex_ext Comp_boundary ex_mate ex_heap1
   \<and> calls (snd (read ex_ext Comp_boundary ex_mate ex_heap1)) = [(Comp_boundary, ex_mate)]"
proof -
  have a: "applyOperator ex_ext (UAtomic shifted) 2 shift_x False created_heap = (ex_mate, ex_heap1)"
    by (simp add: ex_mate_def ex_heap1_def)
  have c: "calls (snd (read ex_ext Comp_boundary ex_mate ex_heap1)) = [(Comp_boundary, ex_mate)]"
    by (simp add: ex_mate_def ex_heap1_def op_defs eval_defs ex_defs Let_def)
  from applyOperator_shares_cache [OF a] c show ?thesis
    by (metis prod.collapse)
qed

section \<open>Remapping to another model\<close>

lemma same_value_refl: "same_value v v \<longleftrightarrow> v \<noteq> Some NaN"
  by (cases v) (auto simp: same_value_def strict_eq_def)

lemma sameCoordinates_self:
  "sameCoordinates (Coordinates.truncate c) c us \<longleftrightarrow> (\<forall>u \<in> set us. noNaN_at c u)"
  by (simp add: sameCoordinates_iff storedEqualAt_def same_value_refl noNaN_at_def
      Coordinates.truncate_def)

text \<open>
  Whatever the operator, the mapping of a unit built by \<open>Unit.create\<close> is over the
  coordinate store of its model; for such a unit the coordinate check against its own
  model only asks that no stored coordinate at its elements is NaN.
\<close>

lemma create_atomic_mapping:
  "create i iid cg tr Kind_Atomic m op els ps h = (u, h') \<Longrightarrow>
     \<exists>a. u = UAtomic a \<and> model a = m \<and> elements a = els
         \<and> operator (conformation a) = op
         \<and> coordinates (conformation a) = Coordinates.truncate (atomicConformation m)"
  by (auto simp: create_def AtomicProperties_def alloc_props_def new_Atomic_def
      createMapping_def)

lemma isSameConformation_own_model:
  "coordinates (conformation a) = Coordinates.truncate (atomicConformation (model a)) \<Longrightarrow>
   isSameConformation a (model a) \<longleftrightarrow>
     (\<forall>e \<in> set (elements a). noNaN_at (atomicConformation (model a)) e)"
  by (simp add: isSameConformation_def sameCoordinates_self)

lemma Atomic_remapModel_unit:
  "Atomic_remapModel ext a m h = (a', h') \<Longrightarrow>
     model a' = m \<and> elements a' = elements a \<and> unit_id a' = unit_id a
     \<and> invariantId a' = invariantId a \<and> chainGroupId a' = chainGroupId a
     \<and> traits a' = traits a \<and> props a' = next_props h \<and> addr a' = next_unit h
     \<and> operator (conformation a') = operator (conformation a)
     \<and> conformation a' =
         (if store_addr (atomicConformation (model a)) \<noteq> store_addr (atomicConformation m)
          then createMapping (operator (conformation a)) (atomicConformation m) None
          else conformation a)"
  by (auto simp: Atomic_remapModel_def alloc_props_def new_Atomic_def Let_def createMapping_def)

text \<open>
  C1 (as amended). When the atomic coordinate store of the new model is the very store
  of the model of the unit (one object: the same address and so the same content),
  \<open>remapModel\<close> returns a unit bound to the new model with the
  conformation mapping of the unit, in which the bonds, the rings, the four element
  subsets and the residue count are carried over unchanged, while the spatial lookup and
  the principal axes are cleared; the boundary is carried over when the coordinate check
  \<open>isSameConformation\<close> succeeds (as it does when the mapping of the unit is over that
  store and no coordinate at its elements is NaN) and is otherwise what
  \<open>tryAdjustBoundary\<close> returns.
\<close>

theorem remapModel_same_store:
  "atomicConformation m = atomicConformation (model a) \<Longrightarrow>
   Atomic_remapModel ext a m h = (a', h') \<Longrightarrow>
     model a' = m \<and> conformation a' = conformation a \<and> elements a' = elements a
     \<and> bonds (pstore h' (props a')) = bonds (pstore h (props a))
     \<and> rings (pstore h' (props a')) = rings (pstore h (props a))
     \<and> polymerElements (pstore h' (props a')) = polymerElements (pstore h (props a))
     \<and> gapElements (pstore h' (props a')) = gapElements (pstore h (props a))
     \<and> nucleotideElements (pstore h' (props a')) = nucleotideElements (pstore h (props a))
     \<and> proteinElements (pstore h' (props a')) = proteinElements (pstore h (props a))
     \<and> residueCount (pstore h' (props a')) = residueCount (pstore h (props a))
     \<and> lookup3d (pstore h' (props a')) = None
     \<and> principalAxes (pstore h' (props a')) = None
     \<and> boundary (pstore h' (props a')) =
         (if isSameConformation a m then boundary (pstore h (props a))
          else (case boundary (pstore h (props a)) of
                  None \<Rightarrow> None
                | Some b \<Rightarrow> tryAdjustBoundary ext (atomicPositions m (elements a)) b))
     \<and> (coordinates (conformation a) = Coordinates.truncate (atomicConformation (model a))
          \<and> (\<forall>e \<in> set (elements a). noNaN_at (atomicConformation m) e)
          \<longrightarrow> boundary (pstore h' (props a')) = boundary (pstore h (props a)))"
proof -
  assume st: "atomicConformation m = atomicConformation (model a)"
    and r: "Atomic_remapModel ext a m h = (a', h')"
  from Atomic_remapModel_props [of ext a m h] r
  have ps: "pstore h' (props a') =
     (pstore h (props a))
       \<lparr> bonds := tryRemapBonds a (bonds (pstore h (props a))) m,
         boundary :=
           (case boundary (pstore h (props a)) of
              None \<Rightarrow> None
            | Some b \<Rightarrow>
                if \<not> isSameConformation a m
                then tryAdjustBoundary ext (atomicPositions m (elements a)) b
                else Some b),
         lookup3d := None, principalAxes := None \<rparr>" by simp
  have bd: "tryRemapBonds a (bonds (pstore h (props a))) m = bonds (pstore h (props a))"
    using st by (simp add: tryRemapBonds_def split: option.splits)
  have same: "isSameConformation a m"
    if "coordinates (conformation a) = Coordinates.truncate (atomicConformation (model a))"
       "\<forall>e \<in> set (elements a). noNaN_at (atomicConformation m) e"
    using that st by (simp add: isSameConformation_def sameCoordinates_self)
  from Atomic_remapModel_unit [OF r] st
  have u: "model a' = m" "conformation a' = conformation a" "elements a' = elements a"
    by simp_all
  show ?thesis
    using u same by (auto simp: ps bd split: option.splits)
qed

theorem remapModel_same_store_witness:
  "atomicConformation modelA_again = atomicConformation (model shifted)
   \<and> boundary (pstore heap_with_lookup (props shifted)) = Some 1
   \<and> boundary (pstore (snd (Atomic_remapModel ex_ext shifted modelA_again heap_with_lookup))
        (props (fst (Atomic_remapModel ex_ext shifted modelA_again heap_with_lookup)))) = Some 1
   \<and> model (fst (Atomic_remapModel ex_ext shifted modelA_again heap_with_lookup)) = modelA_again"
proof -
  have st: "atomicConformation modelA_again = atomicConformation (model shifted)"
    by (simp add: modelA_again_def ex_defs)
  have b: "boundary (pstore heap_with_lookup (props shifted)) = Some 1"
    by (simp add: heap_with_lookup_def ex_defs eval_defs Let_def)
  have c: "coordinates (conformation shifted) = Coordinates.truncate (atomicConformation (model shifted))"
    by (simp add: ex_defs)
  have n: "\<forall>e \<in> set (elements shifted). noNaN_at (atomicConformation modelA_again) e"
    by (simp add: modelA_again_def ex_defs noNaN_at_def arr_get_def)
  have r: "Atomic_remapModel ex_ext shifted modelA_again heap_with_lookup =
      (fst (Atomic_remapModel ex_ext shifted modelA_again heap_with_lookup),
       snd (Atomic_remapModel ex_ext shifted modelA_again heap_with_lookup))" by simp
  note t = remapModel_same_store [OF st r]
  from t have m: "model (fst (Atomic_remapModel ex_ext shifted modelA_again heap_with_lookup))
      = modelA_again" by blast
  from t have "coordinates (conformation shifted) = Coordinates.truncate (atomicConformation (model shifted))
          \<and> (\<forall>e \<in> set (elements shifted). noNaN_at (atomicConformation modelA_again) e)
          \<longrightarrow> boundary (pstore (snd (Atomic_remapModel ex_ext shifted modelA_again heap_with_lookup))
        (props (fst (Atomic_remapModel ex_ext shifted modelA_again heap_with_lookup))))
             = boundary (pstore heap_with_lookup (props shifted))" by blast
  with c n have "boundary (pstore (snd (Atomic_remapModel ex_ext shifted modelA_again heap_with_lookup))
        (props (fst (Atomic_remapModel ex_ext shifted modelA_again heap_with_lookup))))
             = boundary (pstore heap_with_lookup (props shifted))" by blast
  with st b m show ?thesis by simp
qed

text \<open>
  C1 as stated fails: a unit that holds a spatial lookup, remapped to a model over the
  same coordinate store object, holds none afterwards.
\<close>

theorem remapModel_drops_lookup_counterexample:
  "atomicConformation modelA_again = atomicConformation (model shifted)
   \<and> lookup3d (pstore heap_with_lookup (props shifted)) = Some 1
   \<and> lookup3d (pstore (snd (Atomic_remapModel ex_ext shifted modelA_again heap_with_lookup))
        (props (fst (Atomic_remapModel ex_ext shifted modelA_again heap_with_lookup)))) = None"
proof -
  have st: "atomicConformation modelA_again = atomicConformation (model shifted)"
    by (simp add: modelA_again_def ex_defs)
  have l: "lookup3d (pstore heap_with_lookup (props shifted)) = Some 1"
    by (simp add: heap_with_lookup_def ex_defs eval_defs Let_def)
  from st l show ?thesis by (simp add: Atomic_remapModel_props)
qed


















section \<open>Symmetry groups\<close>

text \<open>
  C5 (as amended). \<open>areInvariantElementsEqual(a, b)\<close> is true exactly when the hash codes
  are equal and the element subsets are the same sequence. A group built by
  \<open>SymmetryGroup\<close> takes its elements and its hash code from its first unit, and the hash
  code is \<open>hashUnit\<close> of that unit: a function of its invariant id and its elements only.
  So element subsets that differ (as two different orders of the same indices do) compare
  as not equal, and groups whose first units have the same invariant id and the same
  ordered elements compare as equal, whatever the ids and operators of their units and
  however many units each has.
\<close>

theorem areInvariantElementsEqual_iff:
  "(areInvariantElementsEqual a b \<longleftrightarrow>
      hashCode a = hashCode b \<and> group_elements a = group_elements b)
   \<and> (SymmetryGroup hf (u # us) = Inr ga \<and> SymmetryGroup hf (v # vs) = Inr gb \<longrightarrow>
         group_elements ga = elements (base_of u) \<and> hashCode ga = hashUnit hf u
         \<and> (areInvariantElementsEqual ga gb \<longleftrightarrow>
               hashUnit hf u = hashUnit hf v \<and> elements (base_of u) = elements (base_of v))
         \<and> (elements (base_of u) \<noteq> elements (base_of v) \<longrightarrow>
               \<not> areInvariantElementsEqual ga gb)
         \<and> (elements (base_of u) = elements (base_of v)
              \<and> invariantId (base_of u) = invariantId (base_of v) \<longrightarrow>
               areInvariantElementsEqual ga gb))"
  by (auto simp: areInvariantElementsEqual_def SortedArray_areEqual_def SymmetryGroup_def
      hashUnit_def)

theorem areInvariantElementsEqual_iff_witness:
  "(case (SymmetryGroup ex_hashing [UAtomic shifted],
          SymmetryGroup ex_hashing [ex_mate, UAtomic shifted]) of
      (Inr ga, Inr gb) \<Rightarrow> areInvariantElementsEqual ga gb \<and> transformHash ga \<noteq> transformHash gb
    | _ \<Rightarrow> False)
   \<and> (case (SymmetryGroup ex_hashing [UAtomic indexed_unit],
            SymmetryGroup ex_hashing [permuted_unit]) of
        (Inr ga, Inr gb) \<Rightarrow> \<not> areInvariantElementsEqual ga gb \<and> hashCode ga = hashCode gb
      | _ \<Rightarrow> False)"
proof -
  obtain ga where ga: "SymmetryGroup ex_hashing (UAtomic shifted # []) = Inr ga"
    by (simp add: SymmetryGroup_def)
  obtain gb where gb: "SymmetryGroup ex_hashing (ex_mate # [UAtomic shifted]) = Inr gb"
    by (simp add: SymmetryGroup_def)
  obtain gc where gc: "SymmetryGroup ex_hashing (UAtomic indexed_unit # []) = Inr gc"
    by (simp add: SymmetryGroup_def)
  obtain gd where gd: "SymmetryGroup ex_hashing (permuted_unit # []) = Inr gd"
    by (simp add: SymmetryGroup_def)
  have e1: "elements (base_of (UAtomic shifted)) = elements (base_of ex_mate)
      \<and> invariantId (base_of (UAtomic shifted)) = invariantId (base_of ex_mate)"
    by (simp add: ex_mate_def op_defs eval_defs ex_defs Let_def)
  have e2: "elements (base_of (UAtomic indexed_unit)) \<noteq> elements (base_of permuted_unit)"
    by (simp add: permuted_unit_def op_defs eval_defs ex_defs Let_def)
  from areInvariantElementsEqual_iff [of ga gb ex_hashing "UAtomic shifted" "[]" ga ex_mate
      "[UAtomic shifted]" gb] ga gb e1
  have r1: "areInvariantElementsEqual ga gb" by blast
  from areInvariantElementsEqual_iff [of gc gd ex_hashing "UAtomic indexed_unit" "[]" gc
      permuted_unit "[]" gd] gc gd e2
  have r2: "\<not> areInvariantElementsEqual gc gd" by blast
  have t: "transformHash ga \<noteq> transformHash gb"
    using ga gb
    by (auto simp: SymmetryGroup_def getTransformHash_def ex_hashing_def ex_mate_def op_defs
        eval_defs ex_defs Let_def)
  have h: "hashCode gc = hashCode gd"
    using gc gd
    by (auto simp: SymmetryGroup_def hashUnit_def ex_hashing_def permuted_unit_def op_defs
        eval_defs ex_defs Let_def)
  from r1 r2 t h ga gb gc gd show ?thesis by simp
qed

text \<open>
  C5 as stated fails: two groups over the identical ordered subset whose first units
  have different invariant ids have different hash codes, and compare as not equal.
\<close>

theorem same_subset_other_invariant_counterexample:
  "elements (base_of other_invariant) = elements (base_of (UAtomic shifted))
   \<and> invariantId (base_of other_invariant) \<noteq> invariantId (base_of (UAtomic shifted))
   \<and> (case (SymmetryGroup ex_hashing [UAtomic shifted],
            SymmetryGroup ex_hashing [other_invariant]) of
        (Inr ga, Inr gb) \<Rightarrow>
          group_elements ga = group_elements gb \<and> \<not> areInvariantElementsEqual ga gb
      | _ \<Rightarrow> False)"
  by (simp add: other_invariant_def SymmetryGroup_def areInvariantElementsEqual_def
      hashUnit_def ex_hashing_def ex_defs eval_defs)


section \<open>The shared bond cache\<close>

lemma cache_get_after_set:
  "cache_get (cache_set c els v) k = (if k = els then Some v else cache_get c k)"
  by (induction c) (auto simp: cache_get_def)

lemma Atomic_bonds_calls:
  "Atomic_bonds ext a h = (b, h') \<Longrightarrow>
     (calls h' = calls h \<or> calls h' = calls h @ [(Comp_bonds, UAtomic a)])
     \<and> bonds (pstore h' (props a)) = Some b
     \<and> (bonds (pstore h (props a)) = None \<longrightarrow>
          cache_get (bond_cache h' (model_addr (model a))) (elements a) = Some b)"
  by (auto simp: Atomic_bonds_def set_props_def log_call_def Let_def cache_get_after_set
      split: option.splits)

lemma Atomic_bonds_served:
  "bonds (pstore h (props a)) = Some b
   \<or> (bonds (pstore h (props a)) = None
       \<and> cache_get (bond_cache h (model_addr (model a))) (elements a) = Some b) \<Longrightarrow>
   fst (Atomic_bonds ext a h) = b \<and> calls (snd (Atomic_bonds ext a h)) = calls h"
  by (auto simp: Atomic_bonds_def set_props_def log_call_def Let_def split: option.splits)

lemma Atomic_bonds_frame:
  "Atomic_bonds ext a h = (b, h') \<Longrightarrow> bonds (pstore h p) = Some x \<Longrightarrow>
   bonds (pstore h' p) = Some x"
  by (auto simp: Atomic_bonds_def set_props_def log_call_def Let_def split: option.splits)

text \<open>
  C7 (as amended). For two atomic units on the same model with equal element subsets,
  reading the bonds of the first and then of the second runs the bond computation at
  most once in total. When neither unit holds bonds beforehand, the second read computes
  nothing and returns the graph the first read returned, which the cache of the model
  holds for the element subset.
\<close>

theorem bonds_shared:
  assumes m: "model u1 = model u2" and e: "elements u1 = elements u2"
    and r1: "Atomic_bonds ext u1 h = (b1, h1)"
    and r2: "Atomic_bonds ext u2 h1 = (b2, h2)"
  shows "(\<exists>es. calls h2 = calls h @ es \<and> length es \<le> 1)
   \<and> (bonds (pstore h (props u1)) = None \<and> bonds (pstore h (props u2)) = None \<longrightarrow>
        b2 = b1 \<and> calls h2 = calls h1
        \<and> cache_get (bond_cache h1 (model_addr (model u1))) (elements u1) = Some b1)"
proof -
  note c1 = Atomic_bonds_calls [OF r1]
  note c2 = Atomic_bonds_calls [OF r2]
  have once: "\<exists>es. calls h2 = calls h @ es \<and> length es \<le> 1"
  proof (cases "calls h1 = calls h")
    case True
    with c2 show ?thesis by auto
  next
    case False
    with c1 have l1: "calls h1 = calls h @ [(Comp_bonds, UAtomic u1)]" by blast
    from False r1 have n: "bonds (pstore h (props u1)) = None"
      by (auto simp: Atomic_bonds_def split: option.splits)
    with c1 m e have g: "cache_get (bond_cache h1 (model_addr (model u2))) (elements u2) = Some b1"
      by simp
    have "calls (snd (Atomic_bonds ext u2 h1)) = calls h1"
    proof (cases "bonds (pstore h1 (props u2))")
      case None
      with g Atomic_bonds_served [of h1 u2 b1 ext] show ?thesis by simp
    next
      case (Some x)
      with Atomic_bonds_served [of h1 u2 x ext] show ?thesis by simp
    qed
    with r2 l1 show ?thesis by simp
  qed
  have same: "b2 = b1 \<and> calls h2 = calls h1
        \<and> cache_get (bond_cache h1 (model_addr (model u1))) (elements u1) = Some b1"
    if n: "bonds (pstore h (props u1)) = None" "bonds (pstore h (props u2)) = None"
  proof -
    from c1 n have g: "cache_get (bond_cache h1 (model_addr (model u1))) (elements u1) = Some b1"
      by simp
    have "fst (Atomic_bonds ext u2 h1) = b1 \<and> calls (snd (Atomic_bonds ext u2 h1)) = calls h1"
    proof (cases "bonds (pstore h1 (props u2))")
      case None
      with g m e Atomic_bonds_served [of h1 u2 b1 ext] show ?thesis by simp
    next
      case (Some x)
      have "props u2 = props u1"
      proof (rule ccontr)
        assume d: "props u2 \<noteq> props u1"
        from r1 n(1) have "pstore h1 (props u2) = pstore h (props u2)"
          using d by (auto simp: Atomic_bonds_def set_props_def log_call_def Let_def
              split: option.splits)
        with Some n(2) show False by simp
      qed
      with c1 Some have "x = b1" by simp
      with Some Atomic_bonds_served [of h1 u2 x ext] show ?thesis by simp
    qed
    with r2 g show ?thesis by simp
  qed
  from once same show ?thesis by blast
qed

lemmas bonds_ex_defs = with_given_bonds_def without_bonds_def given_bonds_def unit1_def
  unit2_def

theorem bonds_shared_witness:
  "fst (create 2 1 0 0 Kind_Atomic modelA shift_x [0] None created_heap) = UAtomic unit2
   \<and> model unit1 = model unit2 \<and> elements unit1 = elements unit2
   \<and> bonds (pstore two_units_heap (props unit1)) = None
   \<and> bonds (pstore two_units_heap (props unit2)) = None
   \<and> fst (Atomic_bonds ex_ext unit2 (snd (Atomic_bonds ex_ext unit1 two_units_heap)))
       = fst (Atomic_bonds ex_ext unit1 two_units_heap)
   \<and> calls (snd (Atomic_bonds ex_ext unit2 (snd (Atomic_bonds ex_ext unit1 two_units_heap))))
       = [(Comp_bonds, UAtomic unit1)]"
proof -
  have u: "fst (create 2 1 0 0 Kind_Atomic modelA shift_x [0] None created_heap) = UAtomic unit2"
    by (simp add: unit2_def ex_defs eval_defs)
  have m: "model unit1 = model unit2" and e: "elements unit1 = elements unit2"
    by (simp_all add: unit1_def unit2_def)
  have n: "bonds (pstore two_units_heap (props unit1)) = None"
    "bonds (pstore two_units_heap (props unit2)) = None"
    by (simp_all add: two_units_heap_def unit1_def unit2_def ex_defs eval_defs)
  have c: "calls (snd (Atomic_bonds ex_ext unit1 two_units_heap)) = [(Comp_bonds, UAtomic unit1)]"
    by (simp add: Atomic_bonds_def two_units_heap_def unit1_def ex_defs eval_defs Let_def)
  have r1: "Atomic_bonds ex_ext unit1 two_units_heap
      = (fst (Atomic_bonds ex_ext unit1 two_units_heap),
         snd (Atomic_bonds ex_ext unit1 two_units_heap))"
    by simp
  have r2: "Atomic_bonds ex_ext unit2 (snd (Atomic_bonds ex_ext unit1 two_units_heap))
      = (fst (Atomic_bonds ex_ext unit2 (snd (Atomic_bonds ex_ext unit1 two_units_heap))),
         snd (Atomic_bonds ex_ext unit2 (snd (Atomic_bonds ex_ext unit1 two_units_heap))))"
    by simp
  from bonds_shared [OF m e r1 r2] n
  have "fst (Atomic_bonds ex_ext unit2 (snd (Atomic_bonds ex_ext unit1 two_units_heap)))
       = fst (Atomic_bonds ex_ext unit1 two_units_heap)
     \<and> calls (snd (Atomic_bonds ex_ext unit2 (snd (Atomic_bonds ex_ext unit1 two_units_heap))))
       = calls (snd (Atomic_bonds ex_ext unit1 two_units_heap))" by blast
  with u m e n c show ?thesis by simp
qed

text \<open>
  C7 as stated fails: the first unit was created with a property bag that already
  carries bonds; the second, over the same model, invariant id and elements, was
  created without. The first read returns the given bonds, the second computes its own.
\<close>

theorem bonds_not_identical_counterexample:
  "fst with_given_bonds = UAtomic unit1 \<and> fst without_bonds = UAtomic unit2
   \<and> model unit1 = model unit2 \<and> invariantId unit1 = invariantId unit2
   \<and> elements unit1 = elements unit2
   \<and> fst (Atomic_bonds ex_ext unit1 (snd without_bonds)) = given_bonds
   \<and> fst (Atomic_bonds ex_ext unit2 (snd (Atomic_bonds ex_ext unit1 (snd without_bonds))))
       \<noteq> fst (Atomic_bonds ex_ext unit1 (snd without_bonds))"
  by (simp add: bonds_ex_defs Atomic_bonds_def ex_defs eval_defs Let_def)

end
